theory Spec2Isabelle
  imports Main "HOL-Library.Word"
begin

section \<open>JavaScript values\<close>

text \<open>
  The strategy of \<^verbatim>\<open>lib/passport-envato/strategy.js\<close> handles JavaScript strings, the
  values \<^verbatim>\<open>JSON.parse\<close> returns, and plain objects. A JavaScript string is a sequence
  of 16-bit code units; \<open>str\<close> writes an ASCII literal of the source as such a sequence.
\<close>

type_synonym js_string = "16 word list"

definition str :: "string \<Rightarrow> js_string" where
  "str s = map of_char s"

text \<open>
  A value is \<^verbatim>\<open>undefined\<close> or a JSON value. An object is the list of its own
  properties in insertion order, with no name twice (JavaScript enumerates names that
  are array indices first; no such name is written by the strategy, and a parsed object
  is only read by name). A number keeps the text of its literal: the double it denotes
  is not computed, and nothing below depends on it.
\<close>

datatype jsval =
    JUndefined
  | JNull
  | JBool bool
  | JNum js_string
  | JStr js_string
  | JArr "jsval list"
  | JObj "(js_string \<times> jsval) list"

text \<open>
  The exceptions that pass through the strategy: the SyntaxError of \<^verbatim>\<open>JSON.parse\<close>,
  the TypeError of a property read, and whatever the caller's \<^verbatim>\<open>done\<close> throws
  (\<open>UserError\<close>, with a message).
\<close>

datatype exn = SyntaxError | TypeError | UserError js_string

text \<open>
  \<^verbatim>\<open>o[n] = v\<close> on a plain object: an existing property keeps its place and takes the
  new value, a new property is added last.
\<close>

fun set_prop :: "(js_string \<times> 'v) list \<Rightarrow> js_string \<Rightarrow> 'v \<Rightarrow> (js_string \<times> 'v) list" where
  "set_prop [] n v = [(n, v)]"
| "set_prop ((k, x) # ps) n v = (if k = n then (k, v) # ps else (k, x) # set_prop ps n v)"

text \<open>
  \<^verbatim>\<open>v.n\<close> for a property name \<open>n\<close> that no built-in prototype defines and that is
  neither an array index nor \<^verbatim>\<open>length\<close> (every name the strategy reads is such a
  name: \<^verbatim>\<open>account\<close>, \<^verbatim>\<open>image\<close>, \<^verbatim>\<open>username\<close>, ...). Reading a property of
  \<^verbatim>\<open>undefined\<close> or \<^verbatim>\<open>null\<close> throws a TypeError; an object gives its own property
  or \<^verbatim>\<open>undefined\<close>; a boolean, number, string or array gives \<^verbatim>\<open>undefined\<close>.
\<close>

definition nullish :: "jsval \<Rightarrow> bool" where
  "nullish v \<longleftrightarrow> v = JUndefined \<or> v = JNull"

fun lookup :: "jsval \<Rightarrow> js_string \<Rightarrow> jsval" where
  "lookup (JObj ps) n = (case map_of ps n of None \<Rightarrow> JUndefined | Some v \<Rightarrow> v)"
| "lookup v n = JUndefined"

definition get_member :: "jsval \<Rightarrow> js_string \<Rightarrow> exn + jsval" where
  "get_member v n = (if nullish v then Inl TypeError else Inr (lookup v n))"

section \<open>JSON.parse\<close>

text \<open>
  \<^verbatim>\<open>JSON.parse\<close> is the language's own function. It is modelled by the JSON grammar of
  ECMA-262: a tokenizer over code units, then a pushdown automaton over the tokens.
  The message of the SyntaxError is not modelled.
\<close>

datatype token =
    LBrace | RBrace | LBracket | RBracket | Colon | Comma
  | TString js_string | TNumber js_string | TTrue | TFalse | TNull

definition is_ws :: "16 word \<Rightarrow> bool" where
  "is_ws c \<longleftrightarrow> c = 0x20 \<or> c = 0x09 \<or> c = 0x0A \<or> c = 0x0D"

definition is_digit :: "16 word \<Rightarrow> bool" where
  "is_digit c \<longleftrightarrow> 0x30 \<le> c \<and> c \<le> 0x39"

definition hex_digit :: "16 word \<Rightarrow> 16 word option" where
  "hex_digit c =
     (if is_digit c then Some (c - 0x30)
      else if 0x61 \<le> c \<and> c \<le> 0x66 then Some (c - 0x57)
      else if 0x41 \<le> c \<and> c \<le> 0x46 then Some (c - 0x37)
      else None)"

text \<open>The character after a backslash, other than \<^verbatim>\<open>u\<close>: one of \<^verbatim>\<open>" \ / b f n r t\<close>.\<close>

definition escape_char :: "16 word \<Rightarrow> 16 word option" where
  "escape_char e =
     (if e = 0x22 \<or> e = 0x5C \<or> e = 0x2F then Some e
      else if e = 0x62 then Some 0x08
      else if e = 0x66 then Some 0x0C
      else if e = 0x6E then Some 0x0A
      else if e = 0x72 then Some 0x0D
      else if e = 0x74 then Some 0x09
      else None)"

text \<open>
  The characters of a string literal after its opening quote, up to the closing quote:
  the string denoted and the input left. A code unit below U+0020 is not allowed
  unescaped.
\<close>

fun scan_string :: "js_string \<Rightarrow> js_string \<Rightarrow> (js_string \<times> js_string) option" where
  "scan_string acc [] = None"
| "scan_string acc (c # cs) =
     (if c = 0x22 then Some (acc, cs)
      else if c = 0x5C then
        (case cs of
           [] \<Rightarrow> None
         | e # cs1 \<Rightarrow>
             (if e = 0x75 then
                (case cs1 of
                   h1 # h2 # h3 # h4 # cs2 \<Rightarrow>
                     (case (hex_digit h1, hex_digit h2, hex_digit h3, hex_digit h4) of
                        (Some d1, Some d2, Some d3, Some d4) \<Rightarrow>
                          scan_string (acc @ [d1 * 0x1000 + d2 * 0x100 + d3 * 0x10 + d4]) cs2
                      | _ \<Rightarrow> None)
                 | _ \<Rightarrow> None)
              else
                (case escape_char e of
                   None \<Rightarrow> None
                 | Some x \<Rightarrow> scan_string (acc @ [x]) cs1)))
      else if c < 0x20 then None
      else scan_string (acc @ [c]) cs)"

text \<open>One or more decimal digits.\<close>

definition scan_digits :: "js_string \<Rightarrow> (js_string \<times> js_string) option" where
  "scan_digits cs =
     (if takeWhile is_digit cs = [] then None
      else Some (takeWhile is_digit cs, dropWhile is_digit cs))"

text \<open>The integer part: \<^verbatim>\<open>0\<close>, or a non-zero digit and further digits.\<close>

definition scan_int :: "js_string \<Rightarrow> (js_string \<times> js_string) option" where
  "scan_int cs =
     (case cs of
        [] \<Rightarrow> None
      | c # cs1 \<Rightarrow>
          (if c = 0x30 then Some ([c], cs1)
           else if is_digit c then Some (c # takeWhile is_digit cs1, dropWhile is_digit cs1)
           else None))"

text \<open>The optional fraction: a dot and one or more digits.\<close>

definition scan_frac :: "js_string \<Rightarrow> (js_string \<times> js_string) option" where
  "scan_frac cs =
     (case cs of
        [] \<Rightarrow> Some ([], cs)
      | c # cs1 \<Rightarrow>
          (if c = 0x2E then
             (case scan_digits cs1 of None \<Rightarrow> None | Some (ds, r) \<Rightarrow> Some (c # ds, r))
           else Some ([], cs)))"

text \<open>The optional exponent: \<^verbatim>\<open>e\<close> or \<^verbatim>\<open>E\<close>, an optional sign, one or more digits.\<close>

definition scan_exp :: "js_string \<Rightarrow> (js_string \<times> js_string) option" where
  "scan_exp cs =
     (case cs of
        [] \<Rightarrow> Some ([], cs)
      | c # cs1 \<Rightarrow>
          (if c = 0x65 \<or> c = 0x45 then
             (case cs1 of
                [] \<Rightarrow> None
              | s # cs2 \<Rightarrow>
                  (if s = 0x2B \<or> s = 0x2D then
                     (case scan_digits cs2 of
                        None \<Rightarrow> None
                      | Some (ds, r) \<Rightarrow> Some (c # s # ds, r))
                   else
                     (case scan_digits cs1 of
                        None \<Rightarrow> None
                      | Some (ds, r) \<Rightarrow> Some (c # ds, r))))
           else Some ([], cs)))"

definition scan_number :: "js_string \<Rightarrow> (js_string \<times> js_string) option" where
  "scan_number cs =
     (let (sign, cs1) = (case cs of
                           [] \<Rightarrow> ([], cs)
                         | c # r \<Rightarrow> if c = 0x2D then ([c], r) else ([], cs))
      in case scan_int cs1 of
           None \<Rightarrow> None
         | Some (i, cs2) \<Rightarrow>
             (case scan_frac cs2 of
                None \<Rightarrow> None
              | Some (f, cs3) \<Rightarrow>
                  (case scan_exp cs3 of
                     None \<Rightarrow> None
                   | Some (e, cs4) \<Rightarrow> Some (sign @ i @ f @ e, cs4))))"

text \<open>The input after a given prefix, for the literals \<^verbatim>\<open>true\<close>, \<^verbatim>\<open>false\<close>, \<^verbatim>\<open>null\<close>.\<close>

fun strip_prefix :: "js_string \<Rightarrow> js_string \<Rightarrow> js_string option" where
  "strip_prefix [] cs = Some cs"
| "strip_prefix (p # ps) [] = None"
| "strip_prefix (p # ps) (c # cs) = (if p = c then strip_prefix ps cs else None)"

lemma scan_string_shorter:
  "scan_string acc cs = Some (s, r) \<Longrightarrow> length r < length cs"
proof (induction cs arbitrary: acc rule: length_induct)
  case (1 cs)
  have IH: "length r < length ys"
    if "scan_string acc1 ys = Some (s, r)" and "length ys < length cs" for acc1 ys
    using 1(1) that by blast
  show ?case
  proof (cases cs)
    case Nil
    with 1(2) show ?thesis by simp
  next
    case (Cons c cs1)
    with 1(2) have scan: "scan_string acc (c # cs1) = Some (s, r)" by simp
    show ?thesis
    proof (cases "c = 0x22")
      case True
      with scan Cons show ?thesis by simp
    next
      case quote: False
      show ?thesis
      proof (cases "c = 0x5C")
        case False
        with scan quote have "scan_string (acc @ [c]) cs1 = Some (s, r)"
          by (simp split: if_splits)
        from IH [OF this] Cons show ?thesis by simp
      next
        case True
        with scan quote obtain acc1 ys
          where "scan_string acc1 ys = Some (s, r)" and "length ys < length cs"
          unfolding Cons
          by (auto split: if_splits list.splits option.splits)
        from IH [OF this] this(2) show ?thesis by simp
      qed
    qed
  qed
qed

lemma scan_digits_shorter:
  "scan_digits cs = Some (ds, r) \<Longrightarrow> length r \<le> length cs"
  by (auto simp: scan_digits_def length_dropWhile_le split: if_splits)

lemma scan_int_shorter:
  "scan_int cs = Some (i, r) \<Longrightarrow> length r < length cs"
  by (auto simp: scan_int_def length_dropWhile_le less_Suc_eq_le split: list.splits if_splits)

lemma scan_frac_shorter:
  "scan_frac cs = Some (f, r) \<Longrightarrow> length r \<le> length cs"
  by (auto simp: scan_frac_def split: list.splits if_splits option.splits
      dest!: scan_digits_shorter)

lemma scan_exp_shorter:
  "scan_exp cs = Some (e, r) \<Longrightarrow> length r \<le> length cs"
  by (auto simp: scan_exp_def split: list.splits if_splits option.splits
      dest!: scan_digits_shorter)

lemma scan_number_shorter:
  "scan_number cs = Some (n, r) \<Longrightarrow> length r < length cs"
  by (auto simp: scan_number_def split: list.splits if_splits option.splits prod.splits
      dest!: scan_int_shorter scan_frac_shorter scan_exp_shorter)

lemma strip_prefix_shorter:
  "strip_prefix p cs = Some r \<Longrightarrow> length r \<le> length cs"
  by (induction p cs rule: strip_prefix.induct) (auto split: if_splits)

function tokenize :: "js_string \<Rightarrow> token list option" where
  "tokenize [] = Some []"
| "tokenize (c # cs) =
     (if is_ws c then tokenize cs
      else if c = 0x7B then map_option ((#) LBrace) (tokenize cs)
      else if c = 0x7D then map_option ((#) RBrace) (tokenize cs)
      else if c = 0x5B then map_option ((#) LBracket) (tokenize cs)
      else if c = 0x5D then map_option ((#) RBracket) (tokenize cs)
      else if c = 0x3A then map_option ((#) Colon) (tokenize cs)
      else if c = 0x2C then map_option ((#) Comma) (tokenize cs)
      else if c = 0x22 then
        (case scan_string [] cs of
           None \<Rightarrow> None
         | Some (s, r) \<Rightarrow> map_option ((#) (TString s)) (tokenize r))
      else if c = 0x2D \<or> is_digit c then
        (case scan_number (c # cs) of
           None \<Rightarrow> None
         | Some (n, r) \<Rightarrow> map_option ((#) (TNumber n)) (tokenize r))
      else if c = 0x74 then
        (case strip_prefix (str ''rue'') cs of
           None \<Rightarrow> None
         | Some r \<Rightarrow> map_option ((#) TTrue) (tokenize r))
      else if c = 0x66 then
        (case strip_prefix (str ''alse'') cs of
           None \<Rightarrow> None
         | Some r \<Rightarrow> map_option ((#) TFalse) (tokenize r))
      else if c = 0x6E then
        (case strip_prefix (str ''ull'') cs of
           None \<Rightarrow> None
         | Some r \<Rightarrow> map_option ((#) TNull) (tokenize r))
      else None)"
  by pat_completeness auto
termination
  by (relation "measure length")
     (auto dest: scan_string_shorter scan_number_shorter strip_prefix_shorter)

text \<open>
  The automaton. A frame is an array or an object under construction; \<open>FMember ps k\<close>
  is an object whose property \<open>k\<close> awaits its value. A repeated name overwrites the
  earlier value, as \<^verbatim>\<open>JSON.parse\<close> does.
\<close>

datatype frame =
    FArr "jsval list"
  | FObj "(js_string \<times> jsval) list"
  | FMember "(js_string \<times> jsval) list" js_string

datatype mode = Value | ValueOrEnd | KeyOrEnd | Key | AfterKey | CommaOrEnd | Finished jsval

fun deliver :: "jsval \<Rightarrow> frame list \<Rightarrow> (mode \<times> frame list) option" where
  "deliver v [] = Some (Finished v, [])"
| "deliver v (FArr vs # st) = Some (CommaOrEnd, FArr (vs @ [v]) # st)"
| "deliver v (FMember ps k # st) = Some (CommaOrEnd, FObj (set_prop ps k v) # st)"
| "deliver v (FObj ps # st) = None"

definition begin_value :: "token \<Rightarrow> frame list \<Rightarrow> (mode \<times> frame list) option" where
  "begin_value t st =
     (case t of
        LBracket \<Rightarrow> Some (ValueOrEnd, FArr [] # st)
      | LBrace \<Rightarrow> Some (KeyOrEnd, FObj [] # st)
      | TString s \<Rightarrow> deliver (JStr s) st
      | TNumber n \<Rightarrow> deliver (JNum n) st
      | TTrue \<Rightarrow> deliver (JBool True) st
      | TFalse \<Rightarrow> deliver (JBool False) st
      | TNull \<Rightarrow> deliver JNull st
      | _ \<Rightarrow> None)"

definition end_array :: "frame list \<Rightarrow> (mode \<times> frame list) option" where
  "end_array st = (case st of FArr vs # st1 \<Rightarrow> deliver (JArr vs) st1 | _ \<Rightarrow> None)"

definition end_object :: "frame list \<Rightarrow> (mode \<times> frame list) option" where
  "end_object st = (case st of FObj ps # st1 \<Rightarrow> deliver (JObj ps) st1 | _ \<Rightarrow> None)"

definition begin_member :: "js_string \<Rightarrow> frame list \<Rightarrow> (mode \<times> frame list) option" where
  "begin_member k st =
     (case st of FObj ps # st1 \<Rightarrow> Some (AfterKey, FMember ps k # st1) | _ \<Rightarrow> None)"

definition step :: "mode \<Rightarrow> frame list \<Rightarrow> token \<Rightarrow> (mode \<times> frame list) option" where
  "step m st t =
     (case m of
        Value \<Rightarrow> begin_value t st
      | ValueOrEnd \<Rightarrow> (if t = RBracket then end_array st else begin_value t st)
      | KeyOrEnd \<Rightarrow>
          (case t of RBrace \<Rightarrow> end_object st | TString k \<Rightarrow> begin_member k st | _ \<Rightarrow> None)
      | Key \<Rightarrow> (case t of TString k \<Rightarrow> begin_member k st | _ \<Rightarrow> None)
      | AfterKey \<Rightarrow> (if t = Colon then Some (Value, st) else None)
      | CommaOrEnd \<Rightarrow>
          (case t of
             Comma \<Rightarrow>
               (case st of
                  FArr vs # st1 \<Rightarrow> Some (Value, st)
                | FObj ps # st1 \<Rightarrow> Some (Key, st)
                | _ \<Rightarrow> None)
           | RBracket \<Rightarrow> end_array st
           | RBrace \<Rightarrow> end_object st
           | _ \<Rightarrow> None)
      | Finished v \<Rightarrow> None)"

fun run :: "mode \<Rightarrow> frame list \<Rightarrow> token list \<Rightarrow> jsval option" where
  "run m st [] = (case m of Finished v \<Rightarrow> Some v | _ \<Rightarrow> None)"
| "run m st (t # ts) =
     (case step m st t of None \<Rightarrow> None | Some (m1, st1) \<Rightarrow> run m1 st1 ts)"

definition JSON_parse :: "js_string \<Rightarrow> exn + jsval" where
  "JSON_parse text =
     (case tokenize text of
        None \<Rightarrow> Inl SyntaxError
      | Some ts \<Rightarrow> (case run Value [] ts of None \<Rightarrow> Inl SyntaxError | Some v \<Rightarrow> Inr v))"

section \<open>The constructor\<close>

text \<open>
  The options object of \<^verbatim>\<open>Strategy(options, verify)\<close>, with the options the
  constructor and its documentation name. An option that is not given is \<open>None\<close>
  (\<^verbatim>\<open>undefined\<close>). The \<^verbatim>\<open>verify\<close> callback is handed to the OAuth2 engine
  unchanged and plays no part here.
\<close>

record options =
  clientID :: "js_string option"
  clientSecret :: "js_string option"
  callbackURL :: "js_string option"
  scope :: "js_string list option"
  userAgent :: "js_string option"
  authorizationURL :: "js_string option"
  tokenURL :: "js_string option"
  customHeaders :: "(js_string \<times> js_string) list option"
  userProfileURL :: "js_string option"
  userProfileUsername :: "js_string option"
  userProfileEmail :: "js_string option"

text \<open>The object \<^verbatim>\<open>{}\<close> that \<^verbatim>\<open>options || {}\<close> makes when no options are passed.\<close>

definition no_options :: options where
  "no_options =
     \<lparr>clientID = None, clientSecret = None, callbackURL = None, scope = None,
      userAgent = None, authorizationURL = None, tokenURL = None, customHeaders = None,
      userProfileURL = None, userProfileUsername = None, userProfileEmail = None\<rparr>"

text \<open>
  \<^verbatim>\<open>x || d\<close> for an optional string \<open>x\<close>: \<^verbatim>\<open>undefined\<close> and the empty string are
  falsy, every other string is truthy.
\<close>

definition or_default :: "js_string option \<Rightarrow> js_string \<Rightarrow> js_string" where
  "or_default x d = (case x of None \<Rightarrow> d | Some s \<Rightarrow> if s = [] then d else s)"

text \<open>\<^verbatim>\<open>!headers['User-Agent']\<close>: the header is missing or is the empty string.\<close>

definition no_user_agent :: "(js_string \<times> js_string) list \<Rightarrow> bool" where
  "no_user_agent headers \<longleftrightarrow>
     (case map_of headers (str ''User-Agent'') of None \<Rightarrow> True | Some s \<Rightarrow> s = [])"

text \<open>
  The instance: its name, the options the OAuth2 engine was built from (which holds
  them as \<^verbatim>\<open>_oauth2\<close>), and the three profile URLs \<^verbatim>\<open>_userProfileURL\<close>,
  \<^verbatim>\<open>_userProfileUsername\<close>, \<^verbatim>\<open>_userProfileEmail\<close>.
\<close>

record strategy =
  strategy_name :: js_string
  strategy_oauth2 :: options
  strategy_userProfileURL :: js_string
  strategy_userProfileUsername :: js_string
  strategy_userProfileEmail :: js_string

text \<open>The exception of the OAuth2 engine when it rejects the options.\<close>

datatype config_error = ConfigurationError

text \<open>
  Lines 52 to 59 of \<^verbatim>\<open>function Strategy(options, verify)\<close>: the assignments to
  \<^verbatim>\<open>options\<close>. They write into the object the caller passed, so the result is that
  object as the constructor leaves it.
\<close>

definition resolve_options :: "options \<Rightarrow> options" where
  "resolve_options options0 =
     (let options1 = options0\<lparr>authorizationURL :=
            Some (or_default (authorizationURL options0)
              (str ''https://api.envato.com/authorization''))\<rparr>;
          options2 = options1\<lparr>tokenURL :=
            Some (or_default (tokenURL options1) (str ''https://api.envato.com/token''))\<rparr>;
          headers = (case customHeaders options2 of None \<Rightarrow> [] | Some h \<Rightarrow> h);
          options3 = options2\<lparr>customHeaders := Some headers\<rparr>
      in if no_user_agent headers then
           options3\<lparr>customHeaders := Some (set_prop headers (str ''User-Agent'')
             (or_default (userAgent options3) (str ''passport-envato'')))\<rparr>
         else options3)"

text \<open>
  \<^verbatim>\<open>function Strategy(options, verify)\<close>. The engine
  (\<^verbatim>\<open>OAuth2Strategy.call(this, options, verify)\<close>) is not part of the repository: it
  is the parameter \<open>engine_accepts\<close>, true when the engine returns and false when it
  throws. The result is the options object as the constructor leaves it, and the
  instance or the engine's exception.
\<close>

definition Strategy ::
  "(options \<Rightarrow> bool) \<Rightarrow> options option \<Rightarrow> options \<times> (config_error + strategy)" where
  "Strategy engine_accepts arg =
     (let options = resolve_options (case arg of None \<Rightarrow> no_options | Some given \<Rightarrow> given)
      in if engine_accepts options then
           (options,
            Inr \<lparr>strategy_name = str ''envato'',
                 strategy_oauth2 = options,
                 strategy_userProfileURL = or_default (userProfileURL options)
                   (str ''https://api.envato.com/v1/market/private/user/account.json''),
                 strategy_userProfileUsername = or_default (userProfileUsername options)
                   (str ''https://api.envato.com/v1/market/private/user/username.json''),
                 strategy_userProfileEmail = or_default (userProfileEmail options)
                   (str ''https://api.envato.com/v1/market/private/user/email.json'')\<rparr>)
         else (options, Inl ConfigurationError))"

section \<open>Fetching the profile\<close>

text \<open>
  What \<^verbatim>\<open>_oauth2.get\<close> passes to its callback: a truthy \<^verbatim>\<open>err\<close>, or no error and
  the response body. The error value is the transport's own, of any type \<open>'e\<close>.
\<close>

datatype 'e outcome = Failure 'e | Success js_string

text \<open>
  What \<^verbatim>\<open>done\<close> receives as its first argument: an \<^verbatim>\<open>InternalOAuthError\<close> made of
  a message and the transport's error, or the exception a \<^verbatim>\<open>catch\<close> block caught.
\<close>

datatype 'e error = InternalOAuthError js_string 'e | Thrown exn

text \<open>
  The state one call of \<^verbatim>\<open>userProfile\<close> reads and changes: the instance
  (\<^verbatim>\<open>this\<close>), the requests made through \<^verbatim>\<open>_oauth2.get\<close> so far (URL and access
  token, oldest first), the profile objects created so far (an object's address is its
  index), the calls of \<^verbatim>\<open>done\<close> so far: \<open>Inl e\<close> for \<^verbatim>\<open>done(e)\<close>, \<open>Inr p\<close>
  for \<^verbatim>\<open>done(null, profile)\<close> with the profile at address \<open>p\<close>, and the exceptions
  that have left the strategy's code so far. Only the profile objects are in the store:
  they are the objects the strategy writes to. What \<^verbatim>\<open>JSON.parse\<close> returns is never
  written to and is kept as a value.

  One thing is taken from the transport's side: \<^verbatim>\<open>_oauth2.get\<close> calls its callback
  once for each request. One call of \<^verbatim>\<open>userProfile\<close> is followed from its start to
  the end of its last callback; what other code does while a request is pending is not
  modelled.
\<close>

record 'e world =
  this :: strategy
  requests :: "(js_string \<times> js_string) list"
  heap :: "(js_string \<times> jsval) list list"
  done_calls :: "('e error + nat) list"
  escaped :: "exn list"

text \<open>
  The transport: the outcome of a request, given how many requests came before it, its
  URL and its access token.
\<close>

type_synonym 'e transport = "nat \<Rightarrow> js_string \<Rightarrow> js_string \<Rightarrow> 'e outcome"

text \<open>
  The function \<^verbatim>\<open>done\<close> that the caller passes to \<^verbatim>\<open>userProfile\<close> is the caller's
  code. Of what it does, the strategy meets one thing: whether the call returns or
  throws. So \<^verbatim>\<open>done\<close> is given by what a call of it throws, if anything, for its
  argument and the state at the call. \<open>done_returns\<close> is a \<^verbatim>\<open>done\<close> that always
  returns.
\<close>

type_synonym 'e completion = "'e error + nat \<Rightarrow> 'e world \<Rightarrow> exn option"

definition done_returns :: "'e completion" where
  "done_returns r w = None"

text \<open>
  A statement runs in a world and either completes or throws. \<open>call_done done r\<close> is
  a call of \<^verbatim>\<open>done\<close>: the call is recorded, and it throws what \<^verbatim>\<open>done\<close> throws.
\<close>

definition call_done ::
  "'e completion \<Rightarrow> 'e error + nat \<Rightarrow> 'e world \<Rightarrow> exn option \<times> 'e world" where
  "call_done done r w = (done r w, w\<lparr>done_calls := done_calls w @ [r]\<rparr>)"

text \<open>
  \<^verbatim>\<open>_oauth2.get(url, accessToken, callback)\<close>: the request is recorded and the callback
  runs with its outcome. \<open>sync\<close> says when: before \<^verbatim>\<open>_oauth2.get\<close> returns (as a stub
  that answers at once does) or after it has returned (as a client that waits for the
  response does). An exception that leaves the callback is, in the first case, thrown by
  the statement \<^verbatim>\<open>_oauth2.get(...)\<close> itself; in the second case it reaches no code of
  the strategy and is recorded as escaped. The call is the last statement of the block
  it stands in, so running the callback in its place gives the same final state.
\<close>

definition oauth2_get ::
  "bool \<Rightarrow> 'e transport \<Rightarrow> js_string \<Rightarrow> js_string \<Rightarrow>
   ('e outcome \<Rightarrow> 'e world \<Rightarrow> exn option \<times> 'e world) \<Rightarrow>
   'e world \<Rightarrow> exn option \<times> 'e world" where
  "oauth2_get sync net url accessToken callback w =
     (case callback (net (length (requests w)) url accessToken)
             (w\<lparr>requests := requests w @ [(url, accessToken)]\<rparr>) of
        (None, w1) \<Rightarrow> (None, w1)
      | (Some e, w1) \<Rightarrow>
          if sync then (Some e, w1) else (None, w1\<lparr>escaped := escaped w1 @ [e]\<rparr>))"

text \<open>An object literal: a new object, at the next address.\<close>

definition new_object :: "(js_string \<times> jsval) list \<Rightarrow> 'e world \<Rightarrow> nat \<times> 'e world" where
  "new_object props w = (length (heap w), w\<lparr>heap := heap w @ [props]\<rparr>)"

text \<open>
  \<open>assign p n rhs\<close> is \<^verbatim>\<open>p.n = rhs\<close> for the object at address \<open>p\<close>, where
  evaluating \<open>rhs\<close> may throw; \<open>statements\<close> runs a block in order and stops at the
  first statement that throws; \<open>try_catch\<close> is \<^verbatim>\<open>try { ... } catch(e) { ... }\<close>, and
  what the handler throws leaves the statement.
\<close>

definition assign ::
  "nat \<Rightarrow> js_string \<Rightarrow> exn + jsval \<Rightarrow> 'e world \<Rightarrow> exn option \<times> 'e world" where
  "assign p n rhs w =
     (case rhs of
        Inl e \<Rightarrow> (Some e, w)
      | Inr v \<Rightarrow> (None, w\<lparr>heap := (heap w)[p := set_prop (heap w ! p) n v]\<rparr>))"

fun statements ::
  "('e world \<Rightarrow> exn option \<times> 'e world) list \<Rightarrow> 'e world \<Rightarrow> exn option \<times> 'e world" where
  "statements [] w = (None, w)"
| "statements (s # ss) w =
     (case s w of (Some e, w1) \<Rightarrow> (Some e, w1) | (None, w1) \<Rightarrow> statements ss w1)"

definition try_catch ::
  "('e world \<Rightarrow> exn option \<times> 'e world) \<Rightarrow> (exn \<Rightarrow> 'e world \<Rightarrow> exn option \<times> 'e world) \<Rightarrow>
   'e world \<Rightarrow> exn option \<times> 'e world" where
  "try_catch body handler w =
     (case body w of (None, w1) \<Rightarrow> (None, w1) | (Some e, w1) \<Rightarrow> handler e w1)"

text \<open>\<^verbatim>\<open>json.account.n\<close>\<close>

definition account_member :: "jsval \<Rightarrow> js_string \<Rightarrow> exn + jsval" where
  "account_member json n =
     (case get_member json (str ''account'') of
        Inl e \<Rightarrow> Inl e
      | Inr account \<Rightarrow> get_member account n)"

text \<open>
  The callback of the third request (lines 109 to 121). The call \<^verbatim>\<open>done(null, profile)\<close>
  of line 117 stands inside the \<^verbatim>\<open>try\<close> block, the call of line 110 outside it.
\<close>

definition email_callback ::
  "'e completion \<Rightarrow> nat \<Rightarrow> 'e outcome \<Rightarrow> 'e world \<Rightarrow> exn option \<times> 'e world" where
  "email_callback done profile res =
     (case res of
        Failure err \<Rightarrow>
          call_done done (Inl (InternalOAuthError (str ''failed to fetch email'') err))
      | Success body \<Rightarrow>
          try_catch
            (\<lambda>w. case JSON_parse body of
                   Inl e \<Rightarrow> (Some e, w)
                 | Inr json \<Rightarrow>
                     statements
                       [assign profile (str ''email'') (get_member json (str ''email'')),
                        call_done done (Inr profile)] w)
            (\<lambda>e. call_done done (Inl (Thrown e))))"

text \<open>The callback of the second request (lines 103 to 126).\<close>

definition username_callback ::
  "bool \<Rightarrow> 'e transport \<Rightarrow> js_string \<Rightarrow> 'e completion \<Rightarrow> nat \<Rightarrow> 'e outcome \<Rightarrow>
   'e world \<Rightarrow> exn option \<times> 'e world" where
  "username_callback sync net accessToken done profile res =
     (case res of
        Failure err \<Rightarrow>
          call_done done (Inl (InternalOAuthError (str ''failed to fetch username'') err))
      | Success body \<Rightarrow>
          try_catch
            (\<lambda>w. case JSON_parse body of
                   Inl e \<Rightarrow> (Some e, w)
                 | Inr json \<Rightarrow>
                     statements
                       [assign profile (str ''username'') (get_member json (str ''username'')),
                        (\<lambda>w. oauth2_get sync net (strategy_userProfileEmail (this w))
                                accessToken (email_callback done profile) w)] w)
            (\<lambda>e. call_done done (Inl (Thrown e))))"

text \<open>The callback of the first request (lines 85 to 131).\<close>

definition account_callback ::
  "bool \<Rightarrow> 'e transport \<Rightarrow> js_string \<Rightarrow> 'e completion \<Rightarrow> 'e outcome \<Rightarrow>
   'e world \<Rightarrow> exn option \<times> 'e world" where
  "account_callback sync net accessToken done res =
     (case res of
        Failure err \<Rightarrow>
          call_done done (Inl (InternalOAuthError (str ''failed to fetch user profile'') err))
      | Success body \<Rightarrow>
          try_catch
            (\<lambda>w. case JSON_parse body of
                   Inl e \<Rightarrow> (Some e, w)
                 | Inr json \<Rightarrow>
                     (case new_object [(str ''provider'', JStr (str ''envato''))] w of
                        (profile, w1) \<Rightarrow>
                          statements
                            [assign profile (str ''image'') (account_member json (str ''image'')),
                             assign profile (str ''firstname'')
                               (account_member json (str ''firstname'')),
                             assign profile (str ''surname'') (account_member json (str ''surname'')),
                             assign profile (str ''available_earnings'')
                               (account_member json (str ''available_earnings'')),
                             assign profile (str ''total_deposits'')
                               (account_member json (str ''total_deposits'')),
                             assign profile (str ''balance'') (account_member json (str ''balance'')),
                             assign profile (str ''country'') (account_member json (str ''country'')),
                             assign profile (str ''_raw'') (Inr (JStr body)),
                             assign profile (str ''_json'') (Inr json),
                             (\<lambda>w. oauth2_get sync net (strategy_userProfileUsername (this w))
                                     accessToken
                                     (username_callback sync net accessToken done profile) w)]
                            w1))
            (\<lambda>e. call_done done (Inl (Thrown e))))"

text \<open>
  \<^verbatim>\<open>Strategy.prototype.userProfile = function(accessToken, done)\<close>. Its body is the
  first request; an exception that this statement throws leaves \<^verbatim>\<open>userProfile\<close>.
\<close>

definition userProfile ::
  "bool \<Rightarrow> 'e transport \<Rightarrow> js_string \<Rightarrow> 'e completion \<Rightarrow> 'e world \<Rightarrow> 'e world" where
  "userProfile sync net accessToken done w =
     (case oauth2_get sync net (strategy_userProfileURL (this w)) accessToken
             (account_callback sync net accessToken done) w of
        (None, w1) \<Rightarrow> w1
      | (Some e, w1) \<Rightarrow> w1\<lparr>escaped := escaped w1 @ [e]\<rparr>)"

section \<open>Example inputs\<close>

text \<open>
  A transport that answers the first, second and third request with three given
  outcomes, and every later request as the one three requests before it; a world in
  which nothing has happened yet; the options and the instance that the constructor
  makes when it is given no options; a \<^verbatim>\<open>done\<close> that throws when it is given a profile
  and returns when it is given an error; the options of the example in the constructor's
  documentation; an engine that, as the OAuth2 strategy of passport-oauth does, accepts
  the options that hold a client ID, a client secret and both endpoint URLs.
\<close>

fun mock :: "'e outcome \<Rightarrow> 'e outcome \<Rightarrow> 'e outcome \<Rightarrow> 'e transport" where
  "mock a b c 0 url accessToken = a"
| "mock a b c (Suc 0) url accessToken = b"
| "mock a b c (Suc (Suc 0)) url accessToken = c"
| "mock a b c (Suc (Suc (Suc k))) url accessToken = mock a b c k url accessToken"

definition initial_world :: "strategy \<Rightarrow> 'e world" where
  "initial_world s = \<lparr>this = s, requests = [], heap = [], done_calls = [], escaped = []\<rparr>"

definition default_options :: options where
  "default_options =
     no_options
       \<lparr>authorizationURL := Some (str ''https://api.envato.com/authorization''),
        tokenURL := Some (str ''https://api.envato.com/token''),
        customHeaders := Some [(str ''User-Agent'', str ''passport-envato'')]\<rparr>"

definition example_strategy :: strategy where
  "example_strategy =
     \<lparr>strategy_name = str ''envato'',
      strategy_oauth2 = default_options,
      strategy_userProfileURL = str ''https://api.envato.com/v1/market/private/user/account.json'',
      strategy_userProfileUsername =
        str ''https://api.envato.com/v1/market/private/user/username.json'',
      strategy_userProfileEmail = str ''https://api.envato.com/v1/market/private/user/email.json''\<rparr>"

definition done_throws_on_profile :: "'e completion" where
  "done_throws_on_profile r w =
     (case r of Inl e \<Rightarrow> None | Inr p \<Rightarrow> Some (UserError (str ''verify failed'')))"

definition example_options :: options where
  "example_options =
     no_options
       \<lparr>clientID := Some (str ''123-456-789''),
        clientSecret := Some (str ''shhh-its-a-secret''),
        callbackURL := Some (str ''https://www.example.net/auth/envato/callback''),
        userAgent := Some (str ''myapp.com'')\<rparr>"

definition example_engine :: "options \<Rightarrow> bool" where
  "example_engine opts \<longleftrightarrow>
     or_default (clientID opts) [] \<noteq> [] \<and> or_default (clientSecret opts) [] \<noteq> [] \<and>
     or_default (authorizationURL opts) [] \<noteq> [] \<and> or_default (tokenURL opts) [] \<noteq> []"

section \<open>Facts about the model\<close>

subsection \<open>Strings and objects\<close>

lemma unat_of_char: "unat (of_char c :: 16 word) = of_char c"
proof -
  have "(of_char c :: nat) mod 256 < 256" by simp
  then have "(of_char c :: nat) < 256" by (simp only: of_char_mod_256)
  then have "(of_char c :: nat) < 2 ^ 16" by (rule less_trans) simp
  then have "unat (of_nat (of_char c) :: 16 word) = of_char c"
    by (simp add: unat_of_nat take_bit_nat_eq_self)
  then show ?thesis by (simp only: of_nat_of_char)
qed

lemma of_char_word_eq: "(of_char c :: 16 word) = of_char d \<longleftrightarrow> c = d"
proof
  assume "(of_char c :: 16 word) = of_char d"
  then have "unat (of_char c :: 16 word) = unat (of_char d :: 16 word)" by simp
  then have "(of_char c :: nat) = of_char d" by (simp only: unat_of_char)
  then show "c = d" by (simp only: of_char_eq_iff)
qed simp

lemma str_eq_iff: "str a = str b \<longleftrightarrow> a = b"
  unfolding str_def by (rule inj_map_eq_map) (simp add: inj_def of_char_word_eq)

lemma set_prop_fresh: "n \<notin> fst ` set ps \<Longrightarrow> set_prop ps n v = ps @ [(n, v)]"
  by (induction ps) auto

subsection \<open>What JSON.parse returns\<close>

lemma deliver_Finished: "deliver v st = Some (Finished v1, st1) \<Longrightarrow> v1 = v"
  by (cases "(v, st)" rule: deliver.cases) auto

lemma begin_value_Finished: "begin_value t st = Some (Finished v, st1) \<Longrightarrow> v \<noteq> JUndefined"
  by (auto simp: begin_value_def split: token.splits dest: deliver_Finished)

lemma step_Finished: "step m st t = Some (Finished v, st1) \<Longrightarrow> v \<noteq> JUndefined"
  by (auto simp: step_def end_array_def end_object_def begin_member_def
      split: mode.splits if_splits token.splits list.splits frame.splits
      dest: deliver_Finished begin_value_Finished)

lemma run_defined:
  "run m st ts = Some v \<Longrightarrow> (\<And>v1. m = Finished v1 \<Longrightarrow> v1 \<noteq> JUndefined) \<Longrightarrow> v \<noteq> JUndefined"
proof (induction ts arbitrary: m st)
  case Nil
  then show ?case by (auto split: mode.splits)
next
  case (Cons t ts)
  from Cons.prems(1) obtain m1 st1
    where s: "step m st t = Some (m1, st1)" and r: "run m1 st1 ts = Some v"
    by (auto split: option.splits)
  show ?case
  proof (rule Cons.IH [OF r])
    fix v1
    assume "m1 = Finished v1"
    with s show "v1 \<noteq> JUndefined" by (auto dest: step_Finished)
  qed
qed

lemma JSON_parse_defined: "JSON_parse body = Inr json \<Longrightarrow> json \<noteq> JUndefined"
  by (auto simp: JSON_parse_def split: option.splits dest: run_defined)

lemma JSON_parse_nullish: "JSON_parse body = Inr json \<Longrightarrow> nullish json \<longleftrightarrow> json = JNull"
  by (auto simp: nullish_def dest: JSON_parse_defined)

lemma JSON_parse_throws: "JSON_parse body = Inl e \<Longrightarrow> e = SyntaxError"
  by (auto simp: JSON_parse_def split: option.splits)


subsection \<open>The three callbacks, case by case\<close>

lemma assign_last:
  "assign (length h) n (Inr v) (w\<lparr>heap := h @ [obj]\<rparr>) =
     (None, w\<lparr>heap := h @ [set_prop obj n v]\<rparr>)"
  by (simp add: assign_def)

lemma account_member_ok:
  "\<not> nullish json \<Longrightarrow> \<not> nullish (lookup json (str ''account'')) \<Longrightarrow>
   account_member json n = Inr (lookup (lookup json (str ''account'')) n)"
  by (simp add: account_member_def get_member_def)

lemma account_member_nullish:
  "nullish json \<or> nullish (lookup json (str ''account'')) \<Longrightarrow>
   account_member json n = Inl TypeError"
  by (auto simp: account_member_def get_member_def)

lemma call_done_returns:
  "call_done done_returns r w = (None, w\<lparr>done_calls := done_calls w @ [r]\<rparr>)"
  by (simp add: call_done_def done_returns_def)

lemma try_catch_returns: "body w = (None, w1) \<Longrightarrow> try_catch body handler w = (None, w1)"
  by (simp add: try_catch_def)

lemma try_catch_throws: "body w = (Some e, w1) \<Longrightarrow> try_catch body handler w = handler e w1"
  by (simp add: try_catch_def)

lemma oauth2_get_returns:
  "callback (net (length (requests w)) url tok) (w\<lparr>requests := requests w @ [(url, tok)]\<rparr>) =
     (None, w1) \<Longrightarrow>
   oauth2_get sync net url tok callback w = (None, w1)"
  by (simp add: oauth2_get_def)

lemma email_callback_Failure:
  "email_callback done p (Failure err) w =
     call_done done (Inl (InternalOAuthError (str ''failed to fetch email'') err)) w"
  by (simp add: email_callback_def)

lemma email_callback_unparsed:
  "JSON_parse body = Inl e \<Longrightarrow>
   email_callback done p (Success body) w = call_done done (Inl (Thrown e)) w"
  by (simp add: email_callback_def try_catch_def)

lemma email_callback_nullish:
  "JSON_parse body = Inr json \<Longrightarrow> nullish json \<Longrightarrow>
   email_callback done p (Success body) w = call_done done (Inl (Thrown TypeError)) w"
  by (simp add: email_callback_def try_catch_def assign_def get_member_def)

lemma email_callback_ok:
  "JSON_parse body = Inr json \<Longrightarrow> \<not> nullish json \<Longrightarrow>
   email_callback done p (Success body) w =
     try_catch (call_done done (Inr p)) (\<lambda>e. call_done done (Inl (Thrown e)))
       (w\<lparr>heap := (heap w)[p := set_prop (heap w ! p) (str ''email'') (lookup json (str ''email''))]\<rparr>)"
  by (auto simp: email_callback_def try_catch_def assign_def get_member_def
      split: prod.splits option.splits)

lemma username_callback_Failure:
  "username_callback sync net tok done p (Failure err) w =
     call_done done (Inl (InternalOAuthError (str ''failed to fetch username'') err)) w"
  by (simp add: username_callback_def)

lemma username_callback_unparsed:
  "JSON_parse body = Inl e \<Longrightarrow>
   username_callback sync net tok done p (Success body) w = call_done done (Inl (Thrown e)) w"
  by (simp add: username_callback_def try_catch_def)

lemma username_callback_nullish:
  "JSON_parse body = Inr json \<Longrightarrow> nullish json \<Longrightarrow>
   username_callback sync net tok done p (Success body) w =
     call_done done (Inl (Thrown TypeError)) w"
  by (simp add: username_callback_def try_catch_def assign_def get_member_def)

lemma username_callback_ok:
  "JSON_parse body = Inr json \<Longrightarrow> \<not> nullish json \<Longrightarrow>
   username_callback sync net tok done p (Success body) w =
     try_catch
       (\<lambda>w1. oauth2_get sync net (strategy_userProfileEmail (this w1)) tok
              (email_callback done p) w1)
       (\<lambda>e. call_done done (Inl (Thrown e)))
       (w\<lparr>heap := (heap w)[p := set_prop (heap w ! p) (str ''username'')
                                 (lookup json (str ''username''))]\<rparr>)"
  by (auto simp: username_callback_def try_catch_def assign_def get_member_def
      split: prod.splits option.splits)

lemma account_callback_Failure:
  "account_callback sync net tok done (Failure err) w =
     call_done done (Inl (InternalOAuthError (str ''failed to fetch user profile'') err)) w"
  by (simp add: account_callback_def)

lemma account_callback_unparsed:
  "JSON_parse body = Inl e \<Longrightarrow>
   account_callback sync net tok done (Success body) w = call_done done (Inl (Thrown e)) w"
  by (simp add: account_callback_def try_catch_def)

lemma account_callback_nullish:
  "JSON_parse body = Inr json \<Longrightarrow> nullish json \<or> nullish (lookup json (str ''account'')) \<Longrightarrow>
   account_callback sync net tok done (Success body) w =
     call_done done (Inl (Thrown TypeError))
       (w\<lparr>heap := heap w @ [[(str ''provider'', JStr (str ''envato''))]]\<rparr>)"
  by (simp add: account_callback_def try_catch_def assign_def new_object_def
      account_member_nullish)

lemma account_callback_ok:
  "JSON_parse body = Inr json \<Longrightarrow> \<not> nullish json \<Longrightarrow>
   \<not> nullish (lookup json (str ''account'')) \<Longrightarrow>
   account_callback sync net tok done (Success body) w =
     try_catch
       (\<lambda>w1. oauth2_get sync net (strategy_userProfileUsername (this w1)) tok
              (username_callback sync net tok done (length (heap w))) w1)
       (\<lambda>e. call_done done (Inl (Thrown e)))
       (w\<lparr>heap := heap w @
          [[(str ''provider'', JStr (str ''envato'')),
            (str ''image'', lookup (lookup json (str ''account'')) (str ''image'')),
            (str ''firstname'', lookup (lookup json (str ''account'')) (str ''firstname'')),
            (str ''surname'', lookup (lookup json (str ''account'')) (str ''surname'')),
            (str ''available_earnings'',
               lookup (lookup json (str ''account'')) (str ''available_earnings'')),
            (str ''total_deposits'', lookup (lookup json (str ''account'')) (str ''total_deposits'')),
            (str ''balance'', lookup (lookup json (str ''account'')) (str ''balance'')),
            (str ''country'', lookup (lookup json (str ''account'')) (str ''country'')),
            (str ''_raw'', JStr body),
            (str ''_json'', json)]]\<rparr>)"
  by (simp add: account_callback_def try_catch_def new_object_def
      assign_last account_member_ok set_prop_fresh str_eq_iff)
    (auto split: prod.splits option.splits)

lemma userProfile_ok:
  assumes "net (length (requests w)) (strategy_userProfileURL (this w)) tok = Success b1"
    and "JSON_parse b1 = Inr j1" and "\<not> nullish j1"
    and "\<not> nullish (lookup j1 (str ''account''))"
    and "net (Suc (length (requests w))) (strategy_userProfileUsername (this w)) tok = Success b2"
    and "JSON_parse b2 = Inr j2" and "\<not> nullish j2"
    and "net (Suc (Suc (length (requests w)))) (strategy_userProfileEmail (this w)) tok = Success b3"
    and "JSON_parse b3 = Inr j3" and "\<not> nullish j3"
  shows "userProfile sync net tok done_returns w =
    w\<lparr>requests := requests w @
         [(strategy_userProfileURL (this w), tok),
          (strategy_userProfileUsername (this w), tok),
          (strategy_userProfileEmail (this w), tok)],
      heap := heap w @
         [[(str ''provider'', JStr (str ''envato'')),
           (str ''image'', lookup (lookup j1 (str ''account'')) (str ''image'')),
           (str ''firstname'', lookup (lookup j1 (str ''account'')) (str ''firstname'')),
           (str ''surname'', lookup (lookup j1 (str ''account'')) (str ''surname'')),
           (str ''available_earnings'',
              lookup (lookup j1 (str ''account'')) (str ''available_earnings'')),
           (str ''total_deposits'', lookup (lookup j1 (str ''account'')) (str ''total_deposits'')),
           (str ''balance'', lookup (lookup j1 (str ''account'')) (str ''balance'')),
           (str ''country'', lookup (lookup j1 (str ''account'')) (str ''country'')),
           (str ''_raw'', JStr b1),
           (str ''_json'', j1),
           (str ''username'', lookup j2 (str ''username'')),
           (str ''email'', lookup j3 (str ''email''))]],
      done_calls := done_calls w @ [Inr (length (heap w))]\<rparr>"
  by (simp add: userProfile_def oauth2_get_def assms(1,5,8)
      account_callback_ok [OF assms(2,3,4)] username_callback_ok [OF assms(6,7)]
      email_callback_ok [OF assms(9,10)] call_done_returns try_catch_def set_prop_fresh str_eq_iff)


subsection \<open>The responses of the specification's example\<close>

lemmas parse_simps =
  JSON_parse_def str_def is_ws_def is_digit_def escape_char_def hex_digit_def step_def
  begin_value_def end_object_def begin_member_def end_array_def scan_number_def scan_int_def
  scan_frac_def scan_exp_def scan_digits_def

lemma parse_account_example:
  \<open>JSON_parse (str ''{"account":{"image":"i","firstname":"F","surname":"S","available_earnings":"1","total_deposits":"2","balance":"3","country":"C"}}'') =
   Inr (JObj [(str ''account'',
     JObj [(str ''image'', JStr (str ''i'')), (str ''firstname'', JStr (str ''F'')),
           (str ''surname'', JStr (str ''S'')), (str ''available_earnings'', JStr (str ''1'')),
           (str ''total_deposits'', JStr (str ''2'')), (str ''balance'', JStr (str ''3'')),
           (str ''country'', JStr (str ''C''))])])\<close>
  by (simp add: parse_simps)

lemma parse_username_example:
  \<open>JSON_parse (str ''{"username":"u"}'') = Inr (JObj [(str ''username'', JStr (str ''u''))])\<close>
  by (simp add: parse_simps)

lemma parse_email_example:
  \<open>JSON_parse (str ''{"email":"e@x.com"}'') = Inr (JObj [(str ''email'', JStr (str ''e@x.com''))])\<close>
  by (simp add: parse_simps)

lemma parse_html_example: \<open>JSON_parse (str ''<html>'') = Inl SyntaxError\<close>
  by (simp add: parse_simps)

lemma parse_null_example: \<open>JSON_parse (str ''null'') = Inr JNull\<close>
  by (simp add: parse_simps)

lemma parse_empty_object_example: \<open>JSON_parse (str ''{}'') = Inr (JObj [])\<close>
  by (simp add: parse_simps)

lemma parse_account_number_example:
  \<open>JSON_parse (str ''{"account":1}'') = Inr (JObj [(str ''account'', JNum (str ''1''))])\<close>
  by (simp add: parse_simps)

lemma example_run:
  \<open>userProfile False
     (mock (Success (str ''{"account":{"image":"i","firstname":"F","surname":"S","available_earnings":"1","total_deposits":"2","balance":"3","country":"C"}}''))
           (Success (str ''{"username":"u"}''))
           (Success (str ''{"email":"e@x.com"}'')) :: unit transport)
     (str ''token'') done_returns (initial_world example_strategy) =
    \<lparr>this = example_strategy,
     requests =
       [(str ''https://api.envato.com/v1/market/private/user/account.json'', str ''token''),
        (str ''https://api.envato.com/v1/market/private/user/username.json'', str ''token''),
        (str ''https://api.envato.com/v1/market/private/user/email.json'', str ''token'')],
     heap =
       [[(str ''provider'', JStr (str ''envato'')),
         (str ''image'', JStr (str ''i'')),
         (str ''firstname'', JStr (str ''F'')),
         (str ''surname'', JStr (str ''S'')),
         (str ''available_earnings'', JStr (str ''1'')),
         (str ''total_deposits'', JStr (str ''2'')),
         (str ''balance'', JStr (str ''3'')),
         (str ''country'', JStr (str ''C'')),
         (str ''_raw'', JStr (str ''{"account":{"image":"i","firstname":"F","surname":"S","available_earnings":"1","total_deposits":"2","balance":"3","country":"C"}}'')),
         (str ''_json'', JObj [(str ''account'',
            JObj [(str ''image'', JStr (str ''i'')), (str ''firstname'', JStr (str ''F'')),
                  (str ''surname'', JStr (str ''S'')),
                  (str ''available_earnings'', JStr (str ''1'')),
                  (str ''total_deposits'', JStr (str ''2'')), (str ''balance'', JStr (str ''3'')),
                  (str ''country'', JStr (str ''C''))])]),
         (str ''username'', JStr (str ''u'')),
         (str ''email'', JStr (str ''e@x.com''))]],
     done_calls = [Inr 0], escaped = []\<rparr>\<close>
  by (simp add: initial_world_def example_strategy_def nullish_def str_eq_iff
      userProfile_ok [where sync = False and net = \<open>mock (Success (str ''{"account":{"image":"i","firstname":"F","surname":"S","available_earnings":"1","total_deposits":"2","balance":"3","country":"C"}}''))
           (Success (str ''{"username":"u"}''))
           (Success (str ''{"email":"e@x.com"}''))\<close>,
        OF _ parse_account_example _ _ _ parse_username_example _ _ parse_email_example])

subsection \<open>Every way a call can go\<close>

lemma userProfile_cases [case_names failed fetched]:
  fixes net :: "'e transport"
  assumes failed: "\<And>e. done_calls (userProfile sync net tok done_returns w) = done_calls w @ [Inl e] \<Longrightarrow> thesis"
    and fetched: "\<And>b1 j1 b2 j2 b3 j3.
      net (length (requests w)) (strategy_userProfileURL (this w)) tok = Success b1 \<Longrightarrow>
      JSON_parse b1 = Inr j1 \<Longrightarrow> \<not> nullish j1 \<Longrightarrow>
      \<not> nullish (lookup j1 (str ''account'')) \<Longrightarrow>
      net (Suc (length (requests w))) (strategy_userProfileUsername (this w)) tok = Success b2 \<Longrightarrow>
      JSON_parse b2 = Inr j2 \<Longrightarrow> \<not> nullish j2 \<Longrightarrow>
      net (Suc (Suc (length (requests w)))) (strategy_userProfileEmail (this w)) tok = Success b3 \<Longrightarrow>
      JSON_parse b3 = Inr j3 \<Longrightarrow> \<not> nullish j3 \<Longrightarrow> thesis"
  shows thesis
proof (cases "net (length (requests w)) (strategy_userProfileURL (this w)) tok")
  case (Failure err)
  then have "done_calls (userProfile sync net tok done_returns w) =
      done_calls w @ [Inl (InternalOAuthError (str ''failed to fetch user profile'') err)]"
    by (simp add: userProfile_def oauth2_get_def account_callback_Failure call_done_returns try_catch_def)
  then show ?thesis by (rule failed)
next
  case s1: (Success b1)
  show ?thesis
  proof (cases "JSON_parse b1")
    case (Inl e)
    have "done_calls (userProfile sync net tok done_returns w) = done_calls w @ [Inl (Thrown e)]"
      by (simp add: userProfile_def oauth2_get_def s1 account_callback_unparsed [OF Inl]
          call_done_returns try_catch_def)
    then show ?thesis by (rule failed)
  next
    case p1: (Inr j1)
    show ?thesis
    proof (cases "nullish j1 \<or> nullish (lookup j1 (str ''account''))")
      case True
      have "done_calls (userProfile sync net tok done_returns w) = done_calls w @ [Inl (Thrown TypeError)]"
        by (simp add: userProfile_def oauth2_get_def s1 account_callback_nullish [OF p1 True]
            call_done_returns try_catch_def)
      then show ?thesis by (rule failed)
    next
      case False
      then have n1: "\<not> nullish j1" "\<not> nullish (lookup j1 (str ''account''))"
        by simp_all
      note a = account_callback_ok [OF p1 n1]
      show ?thesis
      proof (cases "net (Suc (length (requests w))) (strategy_userProfileUsername (this w)) tok")
        case (Failure err)
        then have "done_calls (userProfile sync net tok done_returns w) =
            done_calls w @ [Inl (InternalOAuthError (str ''failed to fetch username'') err)]"
          by (simp add: userProfile_def oauth2_get_def s1 a username_callback_Failure
              call_done_returns try_catch_def)
        then show ?thesis by (rule failed)
      next
        case s2: (Success b2)
        show ?thesis
        proof (cases "JSON_parse b2")
          case (Inl e)
          have "done_calls (userProfile sync net tok done_returns w) = done_calls w @ [Inl (Thrown e)]"
            by (simp add: userProfile_def oauth2_get_def s1 a s2
                username_callback_unparsed [OF Inl] call_done_returns try_catch_def)
          then show ?thesis by (rule failed)
        next
          case p2: (Inr j2)
          show ?thesis
          proof (cases "nullish j2")
            case True
            have "done_calls (userProfile sync net tok done_returns w) = done_calls w @ [Inl (Thrown TypeError)]"
              by (simp add: userProfile_def oauth2_get_def s1 a s2
                  username_callback_nullish [OF p2 True] call_done_returns try_catch_def)
            then show ?thesis by (rule failed)
          next
            case n2: False
            note u = username_callback_ok [OF p2 n2]
            show ?thesis
            proof (cases "net (Suc (Suc (length (requests w))))
                (strategy_userProfileEmail (this w)) tok")
              case (Failure err)
              then have "done_calls (userProfile sync net tok done_returns w) =
                  done_calls w @ [Inl (InternalOAuthError (str ''failed to fetch email'') err)]"
                by (simp add: userProfile_def oauth2_get_def s1 a s2 u email_callback_Failure
                    call_done_returns try_catch_def)
              then show ?thesis by (rule failed)
            next
              case s3: (Success b3)
              show ?thesis
              proof (cases "JSON_parse b3")
                case (Inl e)
                have "done_calls (userProfile sync net tok done_returns w) = done_calls w @ [Inl (Thrown e)]"
                  by (simp add: userProfile_def oauth2_get_def s1 a s2 u s3
                      email_callback_unparsed [OF Inl] call_done_returns try_catch_def)
                then show ?thesis by (rule failed)
              next
                case p3: (Inr j3)
                show ?thesis
                proof (cases "nullish j3")
                  case True
                  have "done_calls (userProfile sync net tok done_returns w) =
                      done_calls w @ [Inl (Thrown TypeError)]"
                    by (simp add: userProfile_def oauth2_get_def s1 a s2 u s3
                        email_callback_nullish [OF p3 True] call_done_returns try_catch_def)
                  then show ?thesis by (rule failed)
                next
                  case n3: False
                  from s1 p1 n1 s2 p2 n2 s3 p3 n3 show ?thesis by (rule fetched)
                qed
              qed
            qed
          qed
        qed
      qed
    qed
  qed
qed

lemma done_returns_called_once:
  fixes net :: "'e transport"
  shows "\<exists>r. done_calls (userProfile sync net accessToken done_returns w) = done_calls w @ [r] \<and>
     (\<forall>p. r = Inr p \<longrightarrow>
        p = length (heap w) \<and>
        length (heap (userProfile sync net accessToken done_returns w)) = Suc (length (heap w)) \<and>
        map fst (heap (userProfile sync net accessToken done_returns w) ! p) =
          [str ''provider'', str ''image'', str ''firstname'', str ''surname'',
           str ''available_earnings'', str ''total_deposits'', str ''balance'', str ''country'',
           str ''_raw'', str ''_json'', str ''username'', str ''email''])"
proof (cases rule: userProfile_cases [where sync = sync and net = net and tok = accessToken and w = w])
  case (failed e)
  then show ?thesis by simp
next
  case (fetched b1 j1 b2 j2 b3 j3)
  show ?thesis
    by (simp add: userProfile_ok [where net = net and w = w and tok = accessToken, OF fetched])
qed



subsection \<open>The constructor\<close>

lemma no_user_agent_Nil: "no_user_agent []"
  by (simp add: no_user_agent_def)

lemma Strategy_no_options:
  "Strategy (\<lambda>_. True) None = (default_options, Inr example_strategy)"
  by (simp add: Strategy_def resolve_options_def Let_def no_options_def default_options_def
      example_strategy_def or_default_def no_user_agent_Nil)

lemma str_eq_Nil_iff: "str a = [] \<longleftrightarrow> a = []"
  by (simp add: str_def)

lemma fst_Strategy:
  "fst (Strategy engine_accepts arg) =
     resolve_options (case arg of None \<Rightarrow> no_options | Some given \<Rightarrow> given)"
  by (simp add: Strategy_def Let_def)

lemma customHeaders_resolve_options:
  "customHeaders (resolve_options given) =
     Some (if no_user_agent (case customHeaders given of None \<Rightarrow> [] | Some h \<Rightarrow> h)
           then set_prop (case customHeaders given of None \<Rightarrow> [] | Some h \<Rightarrow> h)
                  (str ''User-Agent'') (or_default (userAgent given) (str ''passport-envato''))
           else (case customHeaders given of None \<Rightarrow> [] | Some h \<Rightarrow> h))"
  by (simp add: resolve_options_def Let_def)

lemma map_of_set_prop_same: "map_of (set_prop ps n v) n = Some v"
  by (induction ps) auto

lemma map_of_fresh: "map_of ps n = None \<Longrightarrow> n \<notin> fst ` set ps"
  by (simp add: map_of_eq_None_iff)

subsection \<open>The instance is only read\<close>

lemma this_call_done: "this (snd (call_done done r w)) = this w"
  by (simp add: call_done_def)

lemma this_assign: "this (snd (assign p n rhs w)) = this w"
  by (cases rhs) (simp_all add: assign_def)

lemma this_statements:
  "(\<And>s w1. s \<in> set ss \<Longrightarrow> this (snd (s w1)) = this w1) \<Longrightarrow>
   this (snd (statements ss w)) = this w"
proof (induction ss arbitrary: w)
  case Nil
  show ?case by simp
next
  case (Cons s ss)
  obtain x w1 where s: "s w = (x, w1)"
    by (cases "s w")
  have "this (snd (s w)) = this w"
    by (rule Cons.prems) simp
  with s have w1: "this w1 = this w"
    by simp
  show ?case
  proof (cases x)
    case None
    have "this (snd (statements ss w1)) = this w1"
      by (rule Cons.IH) (simp add: Cons.prems)
    with None s w1 show ?thesis by simp
  next
    case (Some e)
    with s w1 show ?thesis by simp
  qed
qed

lemma this_try_catch:
  assumes "\<And>w1. this (snd (body w1)) = this w1"
    and "\<And>e w1. this (snd (handler e w1)) = this w1"
  shows "this (snd (try_catch body handler w)) = this w"
proof -
  obtain x w1 where b: "body w = (x, w1)"
    by (cases "body w")
  with assms(1) [of w] have w1: "this w1 = this w"
    by simp
  show ?thesis
    by (cases x) (simp_all add: try_catch_def b w1 assms(2))
qed

lemma this_oauth2_get:
  assumes "\<And>res w1. this (snd (callback res w1)) = this w1"
  shows "this (snd (oauth2_get sync net url tok callback w)) = this w"
proof -
  obtain x w1
    where c: "callback (net (length (requests w)) url tok)
        (w\<lparr>requests := requests w @ [(url, tok)]\<rparr>) = (x, w1)"
    by (cases "callback (net (length (requests w)) url tok)
        (w\<lparr>requests := requests w @ [(url, tok)]\<rparr>)")
  with assms [of "net (length (requests w)) url tok"
      "w\<lparr>requests := requests w @ [(url, tok)]\<rparr>"]
  have w1: "this w1 = this w"
    by simp
  show ?thesis
    by (cases x) (simp_all add: oauth2_get_def c w1)
qed

lemma this_email_callback: "this (snd (email_callback done p res w)) = this w"
proof (cases res)
  case (Failure err)
  then show ?thesis by (simp add: email_callback_def this_call_done)
next
  case (Success body)
  show ?thesis
    unfolding email_callback_def Success outcome.case
    by (rule this_try_catch)
      (auto simp del: statements.simps simp: this_call_done this_assign intro!: this_statements split: sum.splits)
qed

lemma this_username_callback:
  "this (snd (username_callback sync net tok done p res w)) = this w"
proof (cases res)
  case (Failure err)
  then show ?thesis by (simp add: username_callback_def this_call_done)
next
  case (Success body)
  show ?thesis
    unfolding username_callback_def Success outcome.case
    by (rule this_try_catch)
      (auto simp del: statements.simps simp: this_call_done this_assign this_email_callback
        intro!: this_statements this_oauth2_get split: sum.splits)
qed

lemma this_account_callback:
  "this (snd (account_callback sync net tok done res w)) = this w"
proof (cases res)
  case (Failure err)
  then show ?thesis by (simp add: account_callback_def this_call_done)
next
  case (Success body)
  have block: "this (snd (statements ss (w1\<lparr>heap := heap w1 @ [obj]\<rparr>))) = this w1"
    if "\<And>s w2. s \<in> set ss \<Longrightarrow> this (snd (s w2)) = this w2" for ss w1 obj
    using this_statements [of ss "w1\<lparr>heap := heap w1 @ [obj]\<rparr>"] that by simp
  show ?thesis
    unfolding account_callback_def Success outcome.case
    by (rule this_try_catch)
      (auto simp del: statements.simps
        simp: this_call_done this_assign this_username_callback new_object_def
        intro!: block this_oauth2_get split: sum.splits)
qed

lemma this_userProfile: "this (userProfile sync net tok done w) = this w"
proof -
  obtain x w1
    where g: "oauth2_get sync net (strategy_userProfileURL (this w)) tok
        (account_callback sync net tok done) w = (x, w1)"
    by (cases "oauth2_get sync net (strategy_userProfileURL (this w)) tok
        (account_callback sync net tok done) w")
  have "this (snd (oauth2_get sync net (strategy_userProfileURL (this w)) tok
        (account_callback sync net tok done) w)) = this w"
    by (rule this_oauth2_get) (rule this_account_callback)
  with g have w1: "this w1 = this w"
    by simp
  show ?thesis
    by (cases x) (simp_all add: userProfile_def g w1)
qed

section \<open>The claims\<close>

text \<open>
  The claims about \<^verbatim>\<open>userProfile\<close> say which requests the strategy makes and what it
  passes to \<^verbatim>\<open>done\<close>. Except where \<^verbatim>\<open>done\<close> is named otherwise, they are stated for a
  caller whose \<^verbatim>\<open>done\<close> returns (\<open>done_returns\<close>), and for a transport that calls
  back at once as well as for one that calls back later (every \<open>sync\<close>).
\<close>



text \<open>
  C2. For every access token and each of the three requests: when the transport reports
  an error for it (the requests before it having succeeded), \<^verbatim>\<open>done\<close> is called
  once, with an \<^verbatim>\<open>InternalOAuthError\<close> that holds the message of the stage ("failed
  to fetch user profile", "failed to fetch username", "failed to fetch email") and the
  transport's error; the failed request is made once and no later request is made.
\<close>

theorem transport_error_stops:
  fixes net :: "'e transport"
  shows
    "(net (length (requests w)) (strategy_userProfileURL (this w)) accessToken = Failure err \<longrightarrow>
        userProfile sync net accessToken done_returns w =
          w\<lparr>requests := requests w @ [(strategy_userProfileURL (this w), accessToken)],
            done_calls := done_calls w @
              [Inl (InternalOAuthError (str ''failed to fetch user profile'') err)]\<rparr>) \<and>
     (net (length (requests w)) (strategy_userProfileURL (this w)) accessToken = Success b1 \<and>
      JSON_parse b1 = Inr j1 \<and> \<not> nullish j1 \<and> \<not> nullish (lookup j1 (str ''account'')) \<and>
      net (Suc (length (requests w))) (strategy_userProfileUsername (this w)) accessToken =
        Failure err \<longrightarrow>
        requests (userProfile sync net accessToken done_returns w) =
          requests w @ [(strategy_userProfileURL (this w), accessToken),
                        (strategy_userProfileUsername (this w), accessToken)] \<and>
        done_calls (userProfile sync net accessToken done_returns w) =
          done_calls w @ [Inl (InternalOAuthError (str ''failed to fetch username'') err)]) \<and>
     (net (length (requests w)) (strategy_userProfileURL (this w)) accessToken = Success b1 \<and>
      JSON_parse b1 = Inr j1 \<and> \<not> nullish j1 \<and> \<not> nullish (lookup j1 (str ''account'')) \<and>
      net (Suc (length (requests w))) (strategy_userProfileUsername (this w)) accessToken =
        Success b2 \<and>
      JSON_parse b2 = Inr j2 \<and> \<not> nullish j2 \<and>
      net (Suc (Suc (length (requests w)))) (strategy_userProfileEmail (this w)) accessToken =
        Failure err \<longrightarrow>
        requests (userProfile sync net accessToken done_returns w) =
          requests w @ [(strategy_userProfileURL (this w), accessToken),
                        (strategy_userProfileUsername (this w), accessToken),
                        (strategy_userProfileEmail (this w), accessToken)] \<and>
        done_calls (userProfile sync net accessToken done_returns w) =
          done_calls w @ [Inl (InternalOAuthError (str ''failed to fetch email'') err)])"
proof (intro conjI)
  show "net (length (requests w)) (strategy_userProfileURL (this w)) accessToken = Failure err \<longrightarrow>
        userProfile sync net accessToken done_returns w =
          w\<lparr>requests := requests w @ [(strategy_userProfileURL (this w), accessToken)],
            done_calls := done_calls w @
              [Inl (InternalOAuthError (str ''failed to fetch user profile'') err)]\<rparr>"
    by (simp add: userProfile_def oauth2_get_def account_callback_Failure call_done_returns try_catch_def)
next
  show "net (length (requests w)) (strategy_userProfileURL (this w)) accessToken = Success b1 \<and>
      JSON_parse b1 = Inr j1 \<and> \<not> nullish j1 \<and> \<not> nullish (lookup j1 (str ''account'')) \<and>
      net (Suc (length (requests w))) (strategy_userProfileUsername (this w)) accessToken =
        Failure err \<longrightarrow>
        requests (userProfile sync net accessToken done_returns w) =
          requests w @ [(strategy_userProfileURL (this w), accessToken),
                        (strategy_userProfileUsername (this w), accessToken)] \<and>
        done_calls (userProfile sync net accessToken done_returns w) =
          done_calls w @ [Inl (InternalOAuthError (str ''failed to fetch username'') err)]"
  proof
    assume h: "net (length (requests w)) (strategy_userProfileURL (this w)) accessToken =
        Success b1 \<and>
      JSON_parse b1 = Inr j1 \<and> \<not> nullish j1 \<and> \<not> nullish (lookup j1 (str ''account'')) \<and>
      net (Suc (length (requests w))) (strategy_userProfileUsername (this w)) accessToken =
        Failure err"
    then have a: "JSON_parse b1 = Inr j1" "\<not> nullish j1"
      "\<not> nullish (lookup j1 (str ''account''))"
      by simp_all
    from h show "requests (userProfile sync net accessToken done_returns w) =
          requests w @ [(strategy_userProfileURL (this w), accessToken),
                        (strategy_userProfileUsername (this w), accessToken)] \<and>
        done_calls (userProfile sync net accessToken done_returns w) =
          done_calls w @ [Inl (InternalOAuthError (str ''failed to fetch username'') err)]"
      by (simp add: userProfile_def oauth2_get_def account_callback_ok [OF a]
          username_callback_Failure call_done_returns try_catch_def)
  qed
next
  show "net (length (requests w)) (strategy_userProfileURL (this w)) accessToken = Success b1 \<and>
      JSON_parse b1 = Inr j1 \<and> \<not> nullish j1 \<and> \<not> nullish (lookup j1 (str ''account'')) \<and>
      net (Suc (length (requests w))) (strategy_userProfileUsername (this w)) accessToken =
        Success b2 \<and>
      JSON_parse b2 = Inr j2 \<and> \<not> nullish j2 \<and>
      net (Suc (Suc (length (requests w)))) (strategy_userProfileEmail (this w)) accessToken =
        Failure err \<longrightarrow>
        requests (userProfile sync net accessToken done_returns w) =
          requests w @ [(strategy_userProfileURL (this w), accessToken),
                        (strategy_userProfileUsername (this w), accessToken),
                        (strategy_userProfileEmail (this w), accessToken)] \<and>
        done_calls (userProfile sync net accessToken done_returns w) =
          done_calls w @ [Inl (InternalOAuthError (str ''failed to fetch email'') err)]"
  proof
    assume h: "net (length (requests w)) (strategy_userProfileURL (this w)) accessToken =
        Success b1 \<and>
      JSON_parse b1 = Inr j1 \<and> \<not> nullish j1 \<and> \<not> nullish (lookup j1 (str ''account'')) \<and>
      net (Suc (length (requests w))) (strategy_userProfileUsername (this w)) accessToken =
        Success b2 \<and>
      JSON_parse b2 = Inr j2 \<and> \<not> nullish j2 \<and>
      net (Suc (Suc (length (requests w)))) (strategy_userProfileEmail (this w)) accessToken =
        Failure err"
    then have a: "JSON_parse b1 = Inr j1" "\<not> nullish j1"
      "\<not> nullish (lookup j1 (str ''account''))"
      and u: "JSON_parse b2 = Inr j2" "\<not> nullish j2"
      by simp_all
    from h show "requests (userProfile sync net accessToken done_returns w) =
          requests w @ [(strategy_userProfileURL (this w), accessToken),
                        (strategy_userProfileUsername (this w), accessToken),
                        (strategy_userProfileEmail (this w), accessToken)] \<and>
        done_calls (userProfile sync net accessToken done_returns w) =
          done_calls w @ [Inl (InternalOAuthError (str ''failed to fetch email'') err)]"
      by (simp add: userProfile_def oauth2_get_def account_callback_ok [OF a]
          username_callback_ok [OF u] email_callback_Failure call_done_returns try_catch_def)
  qed
qed

theorem transport_error_stops_witness:
  \<open>done_calls (userProfile False (mock (Failure ()) (Failure ()) (Failure ()) :: unit transport) (str ''token'') done_returns (initial_world example_strategy)) =
     [Inl (InternalOAuthError (str ''failed to fetch user profile'') ())] \<and>
   requests (userProfile False (mock (Failure ()) (Failure ()) (Failure ()) :: unit transport) (str ''token'') done_returns (initial_world example_strategy)) =
     [(str ''https://api.envato.com/v1/market/private/user/account.json'', str ''token'')] \<and>
   done_calls (userProfile False (mock (Success (str ''{"account":{"image":"i","firstname":"F","surname":"S","available_earnings":"1","total_deposits":"2","balance":"3","country":"C"}}'')) (Failure ()) (Failure ()) :: unit transport) (str ''token'') done_returns (initial_world example_strategy)) =
     [Inl (InternalOAuthError (str ''failed to fetch username'') ())] \<and>
   requests (userProfile False (mock (Success (str ''{"account":{"image":"i","firstname":"F","surname":"S","available_earnings":"1","total_deposits":"2","balance":"3","country":"C"}}'')) (Failure ()) (Failure ()) :: unit transport) (str ''token'') done_returns (initial_world example_strategy)) =
     [(str ''https://api.envato.com/v1/market/private/user/account.json'', str ''token''),
      (str ''https://api.envato.com/v1/market/private/user/username.json'', str ''token'')] \<and>
   done_calls (userProfile False (mock (Success (str ''{"account":{"image":"i","firstname":"F","surname":"S","available_earnings":"1","total_deposits":"2","balance":"3","country":"C"}}'')) (Success (str ''{"username":"u"}'')) (Failure ()) :: unit transport) (str ''token'') done_returns (initial_world example_strategy)) =
     [Inl (InternalOAuthError (str ''failed to fetch email'') ())] \<and>
   requests (userProfile False (mock (Success (str ''{"account":{"image":"i","firstname":"F","surname":"S","available_earnings":"1","total_deposits":"2","balance":"3","country":"C"}}'')) (Success (str ''{"username":"u"}'')) (Failure ()) :: unit transport) (str ''token'') done_returns (initial_world example_strategy)) =
     [(str ''https://api.envato.com/v1/market/private/user/account.json'', str ''token''),
      (str ''https://api.envato.com/v1/market/private/user/username.json'', str ''token''),
      (str ''https://api.envato.com/v1/market/private/user/email.json'', str ''token'')]\<close>
  using
    transport_error_stops [where sync = False and net = \<open>(mock (Failure ()) (Failure ()) (Failure ()) :: unit transport)\<close> and w = \<open>initial_world example_strategy\<close>
      and accessToken = \<open>str ''token''\<close> and err = \<open>()\<close>]
    transport_error_stops [where sync = False and net = \<open>(mock (Success (str ''{"account":{"image":"i","firstname":"F","surname":"S","available_earnings":"1","total_deposits":"2","balance":"3","country":"C"}}'')) (Failure ()) (Failure ()) :: unit transport)\<close> and w = \<open>initial_world example_strategy\<close>
      and accessToken = \<open>str ''token''\<close> and err = \<open>()\<close>
      and ?b1.0 = \<open>str ''{"account":{"image":"i","firstname":"F","surname":"S","available_earnings":"1","total_deposits":"2","balance":"3","country":"C"}}''\<close>
      and ?j1.0 = \<open>JObj [(str ''account'',
          JObj [(str ''image'', JStr (str ''i'')), (str ''firstname'', JStr (str ''F'')),
                (str ''surname'', JStr (str ''S'')), (str ''available_earnings'', JStr (str ''1'')),
                (str ''total_deposits'', JStr (str ''2'')), (str ''balance'', JStr (str ''3'')),
                (str ''country'', JStr (str ''C''))])]\<close>]
    transport_error_stops [where sync = False and net = \<open>(mock (Success (str ''{"account":{"image":"i","firstname":"F","surname":"S","available_earnings":"1","total_deposits":"2","balance":"3","country":"C"}}'')) (Success (str ''{"username":"u"}'')) (Failure ()) :: unit transport)\<close> and w = \<open>initial_world example_strategy\<close>
      and accessToken = \<open>str ''token''\<close> and err = \<open>()\<close>
      and ?b1.0 = \<open>str ''{"account":{"image":"i","firstname":"F","surname":"S","available_earnings":"1","total_deposits":"2","balance":"3","country":"C"}}''\<close>
      and ?j1.0 = \<open>JObj [(str ''account'',
          JObj [(str ''image'', JStr (str ''i'')), (str ''firstname'', JStr (str ''F'')),
                (str ''surname'', JStr (str ''S'')), (str ''available_earnings'', JStr (str ''1'')),
                (str ''total_deposits'', JStr (str ''2'')), (str ''balance'', JStr (str ''3'')),
                (str ''country'', JStr (str ''C''))])]\<close>
      and ?b2.0 = \<open>str ''{"username":"u"}''\<close>
      and ?j2.0 = \<open>JObj [(str ''username'', JStr (str ''u''))]\<close>]
  by (simp add: initial_world_def example_strategy_def parse_account_example
      parse_username_example nullish_def str_eq_iff)

text \<open>
  C3. For every access token and each of the three requests: when it succeeds and its
  body is not JSON (the requests before it having succeeded and given their values),
  \<^verbatim>\<open>done\<close> is called once, with the SyntaxError that \<^verbatim>\<open>JSON.parse\<close> threw and
  no profile, and no later request is made.
\<close>

theorem parse_failure_stops:
  fixes net :: "'e transport"
  shows
    "(net (length (requests w)) (strategy_userProfileURL (this w)) accessToken = Success b1 \<and> JSON_parse b1 = Inl e \<longrightarrow>
        userProfile sync net accessToken done_returns w =
          w\<lparr>requests := requests w @ [(strategy_userProfileURL (this w), accessToken)],
            done_calls := done_calls w @ [Inl (Thrown e)]\<rparr> \<and>
        e = SyntaxError) \<and>
     (net (length (requests w)) (strategy_userProfileURL (this w)) accessToken = Success b1 \<and>
      JSON_parse b1 = Inr j1 \<and> \<not> nullish j1 \<and> \<not> nullish (lookup j1 (str ''account'')) \<and>
      net (Suc (length (requests w))) (strategy_userProfileUsername (this w)) accessToken =
        Success b2 \<and>
      JSON_parse b2 = Inl e \<longrightarrow>
        requests (userProfile sync net accessToken done_returns w) =
          requests w @ [(strategy_userProfileURL (this w), accessToken),
                        (strategy_userProfileUsername (this w), accessToken)] \<and>
        done_calls (userProfile sync net accessToken done_returns w) = done_calls w @ [Inl (Thrown e)] \<and>
        e = SyntaxError) \<and>
     (net (length (requests w)) (strategy_userProfileURL (this w)) accessToken = Success b1 \<and>
      JSON_parse b1 = Inr j1 \<and> \<not> nullish j1 \<and> \<not> nullish (lookup j1 (str ''account'')) \<and>
      net (Suc (length (requests w))) (strategy_userProfileUsername (this w)) accessToken =
        Success b2 \<and>
      JSON_parse b2 = Inr j2 \<and> \<not> nullish j2 \<and>
      net (Suc (Suc (length (requests w)))) (strategy_userProfileEmail (this w)) accessToken =
        Success b3 \<and>
      JSON_parse b3 = Inl e \<longrightarrow>
        requests (userProfile sync net accessToken done_returns w) =
          requests w @ [(strategy_userProfileURL (this w), accessToken),
                        (strategy_userProfileUsername (this w), accessToken),
                        (strategy_userProfileEmail (this w), accessToken)] \<and>
        done_calls (userProfile sync net accessToken done_returns w) = done_calls w @ [Inl (Thrown e)] \<and>
        e = SyntaxError)"
proof (intro conjI)
  show "net (length (requests w)) (strategy_userProfileURL (this w)) accessToken = Success b1 \<and> JSON_parse b1 = Inl e \<longrightarrow>
        userProfile sync net accessToken done_returns w =
          w\<lparr>requests := requests w @ [(strategy_userProfileURL (this w), accessToken)],
            done_calls := done_calls w @ [Inl (Thrown e)]\<rparr> \<and>
        e = SyntaxError"
  proof (intro impI, elim conjE)
    assume s: "net (length (requests w)) (strategy_userProfileURL (this w)) accessToken = Success b1"
      and p: "JSON_parse b1 = Inl e"
    show "userProfile sync net accessToken done_returns w =
          w\<lparr>requests := requests w @ [(strategy_userProfileURL (this w), accessToken)],
            done_calls := done_calls w @ [Inl (Thrown e)]\<rparr> \<and>
        e = SyntaxError"
      by (simp add: userProfile_def oauth2_get_def s account_callback_unparsed [OF p]
          call_done_returns try_catch_def JSON_parse_throws [OF p])
  qed
next
  show "net (length (requests w)) (strategy_userProfileURL (this w)) accessToken = Success b1 \<and>
      JSON_parse b1 = Inr j1 \<and> \<not> nullish j1 \<and> \<not> nullish (lookup j1 (str ''account'')) \<and>
      net (Suc (length (requests w))) (strategy_userProfileUsername (this w)) accessToken =
        Success b2 \<and>
      JSON_parse b2 = Inl e \<longrightarrow>
        requests (userProfile sync net accessToken done_returns w) =
          requests w @ [(strategy_userProfileURL (this w), accessToken),
                        (strategy_userProfileUsername (this w), accessToken)] \<and>
        done_calls (userProfile sync net accessToken done_returns w) = done_calls w @ [Inl (Thrown e)] \<and>
        e = SyntaxError"
  proof (intro impI, elim conjE)
    assume s1: "net (length (requests w)) (strategy_userProfileURL (this w)) accessToken = Success b1"
      and a: "JSON_parse b1 = Inr j1" "\<not> nullish j1"
        "\<not> nullish (lookup j1 (str ''account''))"
      and s2: "net (Suc (length (requests w))) (strategy_userProfileUsername (this w)) accessToken = Success b2"
      and p: "JSON_parse b2 = Inl e"
    show "requests (userProfile sync net accessToken done_returns w) =
          requests w @ [(strategy_userProfileURL (this w), accessToken),
                        (strategy_userProfileUsername (this w), accessToken)] \<and>
        done_calls (userProfile sync net accessToken done_returns w) = done_calls w @ [Inl (Thrown e)] \<and>
        e = SyntaxError"
      by (simp add: userProfile_def oauth2_get_def s1 account_callback_ok [OF a] s2
          username_callback_unparsed [OF p] call_done_returns try_catch_def JSON_parse_throws [OF p])
  qed
next
  show "net (length (requests w)) (strategy_userProfileURL (this w)) accessToken = Success b1 \<and>
      JSON_parse b1 = Inr j1 \<and> \<not> nullish j1 \<and> \<not> nullish (lookup j1 (str ''account'')) \<and>
      net (Suc (length (requests w))) (strategy_userProfileUsername (this w)) accessToken =
        Success b2 \<and>
      JSON_parse b2 = Inr j2 \<and> \<not> nullish j2 \<and>
      net (Suc (Suc (length (requests w)))) (strategy_userProfileEmail (this w)) accessToken =
        Success b3 \<and>
      JSON_parse b3 = Inl e \<longrightarrow>
        requests (userProfile sync net accessToken done_returns w) =
          requests w @ [(strategy_userProfileURL (this w), accessToken),
                        (strategy_userProfileUsername (this w), accessToken),
                        (strategy_userProfileEmail (this w), accessToken)] \<and>
        done_calls (userProfile sync net accessToken done_returns w) = done_calls w @ [Inl (Thrown e)] \<and>
        e = SyntaxError"
  proof (intro impI, elim conjE)
    assume s1: "net (length (requests w)) (strategy_userProfileURL (this w)) accessToken = Success b1"
      and a: "JSON_parse b1 = Inr j1" "\<not> nullish j1"
        "\<not> nullish (lookup j1 (str ''account''))"
      and s2: "net (Suc (length (requests w))) (strategy_userProfileUsername (this w)) accessToken = Success b2"
      and u: "JSON_parse b2 = Inr j2" "\<not> nullish j2"
      and s3: "net (Suc (Suc (length (requests w)))) (strategy_userProfileEmail (this w)) accessToken = Success b3"
      and p: "JSON_parse b3 = Inl e"
    show "requests (userProfile sync net accessToken done_returns w) =
          requests w @ [(strategy_userProfileURL (this w), accessToken),
                        (strategy_userProfileUsername (this w), accessToken),
                        (strategy_userProfileEmail (this w), accessToken)] \<and>
        done_calls (userProfile sync net accessToken done_returns w) = done_calls w @ [Inl (Thrown e)] \<and>
        e = SyntaxError"
      by (simp add: userProfile_def oauth2_get_def s1 account_callback_ok [OF a] s2
          username_callback_ok [OF u] s3 email_callback_unparsed [OF p] call_done_returns try_catch_def
          JSON_parse_throws [OF p])
  qed
qed

theorem parse_failure_stops_witness:
  \<open>done_calls (userProfile False (mock (Success (str ''<html>'')) (Failure ()) (Failure ()) :: unit transport) (str ''token'') done_returns (initial_world example_strategy)) =
     [Inl (Thrown SyntaxError)] \<and>
   requests (userProfile False (mock (Success (str ''<html>'')) (Failure ()) (Failure ()) :: unit transport) (str ''token'') done_returns (initial_world example_strategy)) =
     [(str ''https://api.envato.com/v1/market/private/user/account.json'', str ''token'')] \<and>
   heap (userProfile False (mock (Success (str ''<html>'')) (Failure ()) (Failure ()) :: unit transport) (str ''token'') done_returns (initial_world example_strategy)) = [] \<and>
   done_calls (userProfile False (mock (Success (str ''{"account":{"image":"i","firstname":"F","surname":"S","available_earnings":"1","total_deposits":"2","balance":"3","country":"C"}}'')) (Success (str ''<html>'')) (Failure ()) :: unit transport) (str ''token'') done_returns (initial_world example_strategy)) =
     [Inl (Thrown SyntaxError)] \<and>
   requests (userProfile False (mock (Success (str ''{"account":{"image":"i","firstname":"F","surname":"S","available_earnings":"1","total_deposits":"2","balance":"3","country":"C"}}'')) (Success (str ''<html>'')) (Failure ()) :: unit transport) (str ''token'') done_returns (initial_world example_strategy)) =
     [(str ''https://api.envato.com/v1/market/private/user/account.json'', str ''token''),
      (str ''https://api.envato.com/v1/market/private/user/username.json'', str ''token'')] \<and>
   done_calls (userProfile False (mock (Success (str ''{"account":{"image":"i","firstname":"F","surname":"S","available_earnings":"1","total_deposits":"2","balance":"3","country":"C"}}'')) (Success (str ''{"username":"u"}'')) (Success (str ''<html>'')) :: unit transport) (str ''token'') done_returns (initial_world example_strategy)) =
     [Inl (Thrown SyntaxError)] \<and>
   requests (userProfile False (mock (Success (str ''{"account":{"image":"i","firstname":"F","surname":"S","available_earnings":"1","total_deposits":"2","balance":"3","country":"C"}}'')) (Success (str ''{"username":"u"}'')) (Success (str ''<html>'')) :: unit transport) (str ''token'') done_returns (initial_world example_strategy)) =
     [(str ''https://api.envato.com/v1/market/private/user/account.json'', str ''token''),
      (str ''https://api.envato.com/v1/market/private/user/username.json'', str ''token''),
      (str ''https://api.envato.com/v1/market/private/user/email.json'', str ''token'')]\<close>
  using
    parse_failure_stops [where sync = False and net = \<open>(mock (Success (str ''<html>'')) (Failure ()) (Failure ()) :: unit transport)\<close> and w = \<open>initial_world example_strategy\<close>
      and accessToken = \<open>str ''token''\<close> and e = SyntaxError
      and ?b1.0 = \<open>str ''<html>''\<close>]
    parse_failure_stops [where sync = False and net = \<open>(mock (Success (str ''{"account":{"image":"i","firstname":"F","surname":"S","available_earnings":"1","total_deposits":"2","balance":"3","country":"C"}}'')) (Success (str ''<html>'')) (Failure ()) :: unit transport)\<close> and w = \<open>initial_world example_strategy\<close>
      and accessToken = \<open>str ''token''\<close> and e = SyntaxError
      and ?b1.0 = \<open>str ''{"account":{"image":"i","firstname":"F","surname":"S","available_earnings":"1","total_deposits":"2","balance":"3","country":"C"}}''\<close>
      and ?j1.0 = \<open>JObj [(str ''account'',
          JObj [(str ''image'', JStr (str ''i'')), (str ''firstname'', JStr (str ''F'')),
                (str ''surname'', JStr (str ''S'')), (str ''available_earnings'', JStr (str ''1'')),
                (str ''total_deposits'', JStr (str ''2'')), (str ''balance'', JStr (str ''3'')),
                (str ''country'', JStr (str ''C''))])]\<close>
      and ?b2.0 = \<open>str ''<html>''\<close>]
    parse_failure_stops [where sync = False and net = \<open>(mock (Success (str ''{"account":{"image":"i","firstname":"F","surname":"S","available_earnings":"1","total_deposits":"2","balance":"3","country":"C"}}'')) (Success (str ''{"username":"u"}'')) (Success (str ''<html>'')) :: unit transport)\<close> and w = \<open>initial_world example_strategy\<close>
      and accessToken = \<open>str ''token''\<close> and e = SyntaxError
      and ?b1.0 = \<open>str ''{"account":{"image":"i","firstname":"F","surname":"S","available_earnings":"1","total_deposits":"2","balance":"3","country":"C"}}''\<close>
      and ?j1.0 = \<open>JObj [(str ''account'',
          JObj [(str ''image'', JStr (str ''i'')), (str ''firstname'', JStr (str ''F'')),
                (str ''surname'', JStr (str ''S'')), (str ''available_earnings'', JStr (str ''1'')),
                (str ''total_deposits'', JStr (str ''2'')), (str ''balance'', JStr (str ''3'')),
                (str ''country'', JStr (str ''C''))])]\<close>
      and ?b2.0 = \<open>str ''{"username":"u"}''\<close>
      and ?j2.0 = \<open>JObj [(str ''username'', JStr (str ''u''))]\<close>
      and ?b3.0 = \<open>str ''<html>''\<close>]
  by (simp add: initial_world_def example_strategy_def parse_account_example
      parse_username_example parse_html_example nullish_def str_eq_iff)

text \<open>
  C4. One call of \<^verbatim>\<open>userProfile\<close> is to call \<^verbatim>\<open>done\<close> exactly once, with a profile or
  with an error and never with both. The code keeps this as long as \<^verbatim>\<open>done\<close> returns
  (\<open>done_returns_called_once\<close>) and breaks it when \<^verbatim>\<open>done\<close> throws on the profile:
  the call \<^verbatim>\<open>done(null, profile)\<close> of line 117 stands inside the \<^verbatim>\<open>try\<close> block, so
  the \<^verbatim>\<open>catch\<close> block of line 118 catches what \<^verbatim>\<open>done\<close> throws and calls
  \<^verbatim>\<open>done\<close> again, with that exception. With the three responses of C1 and a
  \<^verbatim>\<open>done\<close> that throws when it is given a profile, \<^verbatim>\<open>done\<close> is called twice, first
  with the profile and then with an error, whether the transport calls back at once or
  later; the calls of lines 86, 104 and 110 stand outside the \<^verbatim>\<open>try\<close> blocks.
\<close>

theorem done_called_twice:
  \<open>done_calls
     (userProfile False
        (mock (Success (str ''{"account":{"image":"i","firstname":"F","surname":"S","available_earnings":"1","total_deposits":"2","balance":"3","country":"C"}}''))
           (Success (str ''{"username":"u"}''))
           (Success (str ''{"email":"e@x.com"}'')) :: unit transport)
        (str ''token'') done_throws_on_profile (initial_world example_strategy)) =
     [Inr 0, Inl (Thrown (UserError (str ''verify failed'')))] \<and>
   done_calls
     (userProfile True
        (mock (Success (str ''{"account":{"image":"i","firstname":"F","surname":"S","available_earnings":"1","total_deposits":"2","balance":"3","country":"C"}}''))
           (Success (str ''{"username":"u"}''))
           (Success (str ''{"email":"e@x.com"}'')) :: unit transport)
        (str ''token'') done_throws_on_profile (initial_world example_strategy)) =
     [Inr 0, Inl (Thrown (UserError (str ''verify failed'')))]\<close>
  by (simp add: userProfile_def oauth2_get_def try_catch_def call_done_def
      done_throws_on_profile_def initial_world_def example_strategy_def nullish_def
      str_eq_iff set_prop_fresh
      account_callback_ok [OF parse_account_example]
      username_callback_ok [OF parse_username_example]
      email_callback_ok [OF parse_email_example])

text \<open>
  C5. For every options object, and when none is passed: if the engine accepts the
  options that the constructor hands it, the constructor makes an instance, and each
  endpoint option that is not given is resolved to its fixed default.
  \<^verbatim>\<open>authorizationURL\<close> and \<^verbatim>\<open>tokenURL\<close> are resolved in the options that the
  engine receives, \<^verbatim>\<open>userProfileURL\<close>, \<^verbatim>\<open>userProfileUsername\<close> and
  \<^verbatim>\<open>userProfileEmail\<close> in the instance.
\<close>

theorem Strategy_defaults:
  assumes "given = (case arg of None \<Rightarrow> no_options | Some opts \<Rightarrow> opts)"
    and "resolved = fst (Strategy engine_accepts arg)"
    and "engine_accepts resolved"
  shows
    "\<exists>s. snd (Strategy engine_accepts arg) = Inr s \<and>
       strategy_oauth2 s = resolved \<and>
       (authorizationURL given = None \<longrightarrow>
          authorizationURL resolved = Some (str ''https://api.envato.com/authorization'')) \<and>
       (tokenURL given = None \<longrightarrow>
          tokenURL resolved = Some (str ''https://api.envato.com/token'')) \<and>
       (userProfileURL given = None \<longrightarrow>
          strategy_userProfileURL s =
            str ''https://api.envato.com/v1/market/private/user/account.json'') \<and>
       (userProfileUsername given = None \<longrightarrow>
          strategy_userProfileUsername s =
            str ''https://api.envato.com/v1/market/private/user/username.json'') \<and>
       (userProfileEmail given = None \<longrightarrow>
          strategy_userProfileEmail s =
            str ''https://api.envato.com/v1/market/private/user/email.json'')"
proof -
  from assms(1,2) have resolved: "resolved = resolve_options given"
    by (simp add: fst_Strategy)
  with assms(3) have "engine_accepts (resolve_options given)"
    by simp
  with assms(1) have made: "snd (Strategy engine_accepts arg) =
      Inr \<lparr>strategy_name = str ''envato'',
           strategy_oauth2 = resolve_options given,
           strategy_userProfileURL = or_default (userProfileURL (resolve_options given))
             (str ''https://api.envato.com/v1/market/private/user/account.json''),
           strategy_userProfileUsername = or_default (userProfileUsername (resolve_options given))
             (str ''https://api.envato.com/v1/market/private/user/username.json''),
           strategy_userProfileEmail = or_default (userProfileEmail (resolve_options given))
             (str ''https://api.envato.com/v1/market/private/user/email.json'')\<rparr>"
    by (simp add: Strategy_def Let_def)
  show ?thesis
    unfolding made resolved
    by (simp add: resolve_options_def Let_def or_default_def)
qed

theorem Strategy_defaults_witness:
  "example_engine (fst (Strategy example_engine (Some example_options))) \<and>
   authorizationURL example_options = None \<and> tokenURL example_options = None \<and>
   userProfileURL example_options = None \<and> userProfileUsername example_options = None \<and>
   userProfileEmail example_options = None \<and>
   snd (Strategy example_engine (Some example_options)) =
     Inr \<lparr>strategy_name = str ''envato'',
          strategy_oauth2 =
            example_options
              \<lparr>authorizationURL := Some (str ''https://api.envato.com/authorization''),
               tokenURL := Some (str ''https://api.envato.com/token''),
               customHeaders := Some [(str ''User-Agent'', str ''myapp.com'')]\<rparr>,
          strategy_userProfileURL =
            str ''https://api.envato.com/v1/market/private/user/account.json'',
          strategy_userProfileUsername =
            str ''https://api.envato.com/v1/market/private/user/username.json'',
          strategy_userProfileEmail =
            str ''https://api.envato.com/v1/market/private/user/email.json''\<rparr> \<and>
   authorizationURL (fst (Strategy example_engine (Some example_options))) =
     Some (str ''https://api.envato.com/authorization'') \<and>
   tokenURL (fst (Strategy example_engine (Some example_options))) =
     Some (str ''https://api.envato.com/token'')"
  using Strategy_defaults [where arg = "Some example_options" and given = example_options
      and engine_accepts = example_engine
      and resolved = "fst (Strategy example_engine (Some example_options))"]
  by (simp add: Strategy_def resolve_options_def Let_def example_options_def example_engine_def
      no_options_def or_default_def no_user_agent_def str_eq_iff str_eq_Nil_iff)

text \<open>
  C6, as the code has it. When the header map has no \<^verbatim>\<open>User-Agent\<close> entry and no
  \<^verbatim>\<open>userAgent\<close> is given, the constructor adds the entry "passport-envato"; when it
  has none and a non-empty \<^verbatim>\<open>userAgent\<close> is given, it adds that value; a non-empty
  \<^verbatim>\<open>User-Agent\<close> entry is left as it is, and so is the rest of the map. An empty
  \<^verbatim>\<open>userAgent\<close> counts as not given and an empty entry as missing: the test is
  JavaScript's truthiness.
\<close>

theorem user_agent_header:
  assumes "Strategy engine_accepts arg = (resolved, r)"
    and "given = (case arg of None \<Rightarrow> no_options | Some opts \<Rightarrow> opts)"
    and "headers = (case customHeaders given of None \<Rightarrow> [] | Some h \<Rightarrow> h)"
  shows
    "(map_of headers (str ''User-Agent'') = None \<and> userAgent given = None \<longrightarrow>
        customHeaders resolved =
          Some (headers @ [(str ''User-Agent'', str ''passport-envato'')])) \<and>
     (map_of headers (str ''User-Agent'') = None \<and> userAgent given = Some ua \<and> ua \<noteq> [] \<longrightarrow>
        customHeaders resolved = Some (headers @ [(str ''User-Agent'', ua)])) \<and>
     (map_of headers (str ''User-Agent'') = Some v \<and> v \<noteq> [] \<longrightarrow>
        customHeaders resolved = Some headers) \<and>
     (map_of headers (str ''User-Agent'') = None \<and> userAgent given = Some [] \<longrightarrow>
        customHeaders resolved =
          Some (headers @ [(str ''User-Agent'', str ''passport-envato'')])) \<and>
     (map_of headers (str ''User-Agent'') = Some [] \<longrightarrow>
        map_of (the (customHeaders resolved)) (str ''User-Agent'') =
          Some (or_default (userAgent given) (str ''passport-envato'')))"
proof -
  from assms(1) have "resolved = fst (Strategy engine_accepts arg)"
    by simp
  then have resolved: "customHeaders resolved =
      Some (if no_user_agent headers
            then set_prop headers (str ''User-Agent'')
                   (or_default (userAgent given) (str ''passport-envato''))
            else headers)"
    by (simp add: fst_Strategy customHeaders_resolve_options assms(2,3))
  show ?thesis
    unfolding resolved
    by (auto simp: no_user_agent_def or_default_def set_prop_fresh map_of_fresh
        map_of_set_prop_same)
qed

theorem user_agent_header_witness:
  "customHeaders (fst (Strategy (\<lambda>_. True) None)) =
     Some [(str ''User-Agent'', str ''passport-envato'')] \<and>
   customHeaders (fst (Strategy (\<lambda>_. True)
       (Some (no_options\<lparr>userAgent := Some (str ''myapp.com'')\<rparr>)))) =
     Some [(str ''User-Agent'', str ''myapp.com'')] \<and>
   customHeaders (fst (Strategy (\<lambda>_. True)
       (Some (no_options\<lparr>userAgent := Some (str ''myapp.com''),
          customHeaders := Some [(str ''User-Agent'', str ''other'')]\<rparr>)))) =
     Some [(str ''User-Agent'', str ''other'')] \<and>
   customHeaders (fst (Strategy (\<lambda>_. True) (Some (no_options\<lparr>userAgent := Some []\<rparr>)))) =
     Some [(str ''User-Agent'', str ''passport-envato'')] \<and>
   map_of (the (customHeaders (fst (Strategy (\<lambda>_. True)
       (Some (no_options\<lparr>userAgent := Some (str ''myapp.com''),
          customHeaders := Some [(str ''User-Agent'', [])]\<rparr>))))))
     (str ''User-Agent'') = Some (str ''myapp.com'')"
  using
    user_agent_header [where engine_accepts = "\<lambda>_. True" and arg = None
      and resolved = "fst (Strategy (\<lambda>_. True) None)"
      and r = "snd (Strategy (\<lambda>_. True) None)" and given = no_options and headers = "[]"
      and ua = "str ''myapp.com''"
      and v = "str ''other''"]
    user_agent_header [where engine_accepts = "\<lambda>_. True"
      and arg = "Some (no_options\<lparr>userAgent := Some (str ''myapp.com'')\<rparr>)"
      and resolved = "fst (Strategy (\<lambda>_. True)
        (Some (no_options\<lparr>userAgent := Some (str ''myapp.com'')\<rparr>)))"
      and r = "snd (Strategy (\<lambda>_. True) (Some (no_options\<lparr>userAgent := Some (str ''myapp.com'')\<rparr>)))"
      and given = "no_options\<lparr>userAgent := Some (str ''myapp.com'')\<rparr>" and headers = "[]"
      and ua = "str ''myapp.com''"
      and v = "str ''other''"]
    user_agent_header [where engine_accepts = "\<lambda>_. True"
      and arg = "Some (no_options\<lparr>userAgent := Some (str ''myapp.com''),
          customHeaders := Some [(str ''User-Agent'', str ''other'')]\<rparr>)"
      and resolved = "fst (Strategy (\<lambda>_. True)
        (Some (no_options\<lparr>userAgent := Some (str ''myapp.com''),
          customHeaders := Some [(str ''User-Agent'', str ''other'')]\<rparr>)))"
      and r = "snd (Strategy (\<lambda>_. True) (Some (no_options\<lparr>userAgent := Some (str ''myapp.com''),
          customHeaders := Some [(str ''User-Agent'', str ''other'')]\<rparr>)))"
      and given = "no_options\<lparr>userAgent := Some (str ''myapp.com''),
          customHeaders := Some [(str ''User-Agent'', str ''other'')]\<rparr>"
      and headers = "[(str ''User-Agent'', str ''other'')]"
      and v = "str ''other''"
      and ua = "str ''myapp.com''"]
    user_agent_header [where engine_accepts = "\<lambda>_. True"
      and arg = "Some (no_options\<lparr>userAgent := Some []\<rparr>)"
      and resolved = "fst (Strategy (\<lambda>_. True)
        (Some (no_options\<lparr>userAgent := Some []\<rparr>)))"
      and r = "snd (Strategy (\<lambda>_. True) (Some (no_options\<lparr>userAgent := Some []\<rparr>)))"
      and given = "no_options\<lparr>userAgent := Some []\<rparr>" and headers = "[]"
      and ua = "str ''myapp.com''"
      and v = "str ''other''"]
    user_agent_header [where engine_accepts = "\<lambda>_. True"
      and arg = "Some (no_options\<lparr>userAgent := Some (str ''myapp.com''),
          customHeaders := Some [(str ''User-Agent'', [])]\<rparr>)"
      and resolved = "fst (Strategy (\<lambda>_. True)
        (Some (no_options\<lparr>userAgent := Some (str ''myapp.com''),
          customHeaders := Some [(str ''User-Agent'', [])]\<rparr>)))"
      and r = "snd (Strategy (\<lambda>_. True) (Some (no_options\<lparr>userAgent := Some (str ''myapp.com''),
          customHeaders := Some [(str ''User-Agent'', [])]\<rparr>)))"
      and given = "no_options\<lparr>userAgent := Some (str ''myapp.com''),
          customHeaders := Some [(str ''User-Agent'', [])]\<rparr>"
      and headers = "[(str ''User-Agent'', [])]"
      and ua = "str ''myapp.com''"
      and v = "str ''other''"]
  by (simp add: fst_Strategy customHeaders_resolve_options no_options_def no_user_agent_def or_default_def
      str_eq_iff str_eq_Nil_iff)

text \<open>
  C6 as stated fails on empty strings: an entry \<^verbatim>\<open>'User-Agent': ''\<close> that is already
  present is replaced by "passport-envato", and a given \<^verbatim>\<open>userAgent: ''\<close> is not used.
\<close>

theorem user_agent_header_counterexample:
  "customHeaders (fst (Strategy (\<lambda>_. True)
       (Some (no_options\<lparr>customHeaders := Some [(str ''User-Agent'', [])]\<rparr>)))) =
     Some [(str ''User-Agent'', str ''passport-envato'')] \<and>
   Some [(str ''User-Agent'', str ''passport-envato'')] \<noteq> Some [(str ''User-Agent'', [])] \<and>
   customHeaders (fst (Strategy (\<lambda>_. True) (Some (no_options\<lparr>userAgent := Some []\<rparr>)))) =
     Some [(str ''User-Agent'', str ''passport-envato'')]"
  by (simp add: fst_Strategy customHeaders_resolve_options no_options_def no_user_agent_def or_default_def
      str_eq_iff str_eq_Nil_iff)


text \<open>
  C7, as the code has it. The constructor resolves the configuration by writing into the
  options object of the caller: \<^verbatim>\<open>authorizationURL\<close>, \<^verbatim>\<open>tokenURL\<close> and
  \<^verbatim>\<open>customHeaders\<close> are assigned, the header map then has a \<^verbatim>\<open>User-Agent\<close>
  entry, and every other option is left as given. Afterwards
  \<^verbatim>\<open>userProfile\<close> only reads the instance, whatever \<^verbatim>\<open>done\<close> it is given.
\<close>

theorem Strategy_writes_options:
  "clientID (fst (Strategy engine_accepts (Some given))) = clientID given \<and>
   clientSecret (fst (Strategy engine_accepts (Some given))) = clientSecret given \<and>
   callbackURL (fst (Strategy engine_accepts (Some given))) = callbackURL given \<and>
   scope (fst (Strategy engine_accepts (Some given))) = scope given \<and>
   userAgent (fst (Strategy engine_accepts (Some given))) = userAgent given \<and>
   userProfileURL (fst (Strategy engine_accepts (Some given))) = userProfileURL given \<and>
   userProfileUsername (fst (Strategy engine_accepts (Some given))) = userProfileUsername given \<and>
   userProfileEmail (fst (Strategy engine_accepts (Some given))) = userProfileEmail given \<and>
   authorizationURL (fst (Strategy engine_accepts (Some given))) =
     Some (or_default (authorizationURL given) (str ''https://api.envato.com/authorization'')) \<and>
   tokenURL (fst (Strategy engine_accepts (Some given))) =
     Some (or_default (tokenURL given) (str ''https://api.envato.com/token'')) \<and>
   customHeaders (fst (Strategy engine_accepts (Some given))) \<noteq> None \<and>
   map_of (the (customHeaders (fst (Strategy engine_accepts (Some given))))) (str ''User-Agent'') \<noteq>
     None \<and>
   this (userProfile sync net accessToken done w) = this w"
proof -
  have entry: "map_of (the (customHeaders (resolve_options given))) (str ''User-Agent'') \<noteq> None"
    by (auto simp: customHeaders_resolve_options no_user_agent_def map_of_set_prop_same
        split: option.splits)
  show ?thesis
    by (simp add: fst_Strategy this_userProfile entry) (simp add: resolve_options_def Let_def)
qed


text \<open>
  C7 as stated fails: the constructor changes the options object it is given. An
  object without \<^verbatim>\<open>authorizationURL\<close> has one after the call.
\<close>

theorem Strategy_writes_options_counterexample:
  "fst (Strategy (\<lambda>_. True) (Some no_options)) = default_options \<and>
   authorizationURL no_options = None \<and>
   authorizationURL default_options = Some (str ''https://api.envato.com/authorization'')"
  by (simp add: fst_Strategy resolve_options_def Let_def no_options_def default_options_def
      or_default_def no_user_agent_def)

text \<open>
  C8. When a call of \<^verbatim>\<open>userProfile\<close> has passed a profile to \<^verbatim>\<open>done\<close> and a second
  call on the same instance, with the same access token, gets the same answers to its
  requests, the second call passes a profile too: a new object, equal to the first
  property by property, while every object that existed before the second call,
  the first profile among them, is unchanged, and so is the instance.
\<close>

theorem userProfile_twice:
  fixes net :: "'e transport"
  assumes first: "done_calls (userProfile sync net accessToken done_returns w) = done_calls w @ [Inr p1]"
    and same: "\<forall>k url. net (length (requests (userProfile sync net accessToken done_returns w)) + k) url accessToken =
      net (length (requests w) + k) url accessToken"
  shows "\<exists>p2.
     done_calls (userProfile sync net accessToken done_returns (userProfile sync net accessToken done_returns w)) =
       done_calls w @ [Inr p1, Inr p2] \<and>
     p2 = length (heap (userProfile sync net accessToken done_returns w)) \<and>
     p2 \<noteq> p1 \<and>
     heap (userProfile sync net accessToken done_returns (userProfile sync net accessToken done_returns w)) ! p2 =
       heap (userProfile sync net accessToken done_returns w) ! p1 \<and>
     take (length (heap (userProfile sync net accessToken done_returns w)))
       (heap (userProfile sync net accessToken done_returns (userProfile sync net accessToken done_returns w))) =
       heap (userProfile sync net accessToken done_returns w) \<and>
     this (userProfile sync net accessToken done_returns (userProfile sync net accessToken done_returns w)) = this w"
proof (cases rule: userProfile_cases [where sync = sync and net = net and tok = accessToken and w = w])
  case (failed e)
  with first show ?thesis by simp
next
  case (fetched b1 j1 b2 j2 b3 j3)
  note w1 = userProfile_ok [where sync = sync and net = net and w = w and tok = accessToken, OF fetched]
  from first have p1: "p1 = length (heap w)"
    by (simp add: w1)
  have t: "this (userProfile sync net accessToken done_returns w) = this w"
    and r: "length (requests (userProfile sync net accessToken done_returns w)) = Suc (Suc (Suc (length (requests w))))"
    by (simp_all add: w1)
  from same have "net (length (requests (userProfile sync net accessToken done_returns w)) + 0)
      (strategy_userProfileURL (this w)) accessToken =
      net (length (requests w) + 0) (strategy_userProfileURL (this w)) accessToken"
    by blast
  with fetched(1) have s1: "net (length (requests (userProfile sync net accessToken done_returns w)))
      (strategy_userProfileURL (this (userProfile sync net accessToken done_returns w))) accessToken = Success b1"
    by (simp add: t)
  from same have "net (length (requests (userProfile sync net accessToken done_returns w)) + 1)
      (strategy_userProfileUsername (this w)) accessToken =
      net (length (requests w) + 1) (strategy_userProfileUsername (this w)) accessToken"
    by blast
  with fetched(5) have s2: "net (Suc (length (requests (userProfile sync net accessToken done_returns w))))
      (strategy_userProfileUsername (this (userProfile sync net accessToken done_returns w))) accessToken = Success b2"
    by (simp add: t)
  from same have "net (length (requests (userProfile sync net accessToken done_returns w)) + 2)
      (strategy_userProfileEmail (this w)) accessToken =
      net (length (requests w) + 2) (strategy_userProfileEmail (this w)) accessToken"
    by blast
  with fetched(8) have s3: "net (Suc (Suc (length (requests (userProfile sync net accessToken done_returns w)))))
      (strategy_userProfileEmail (this (userProfile sync net accessToken done_returns w))) accessToken = Success b3"
    by (simp add: t)
  note w2 = userProfile_ok [where sync = sync and net = net and w = "userProfile sync net accessToken done_returns w"
      and tok = accessToken, OF s1 fetched(2,3,4) s2 fetched(6,7) s3 fetched(9,10)]
  show ?thesis
    unfolding w2 by (simp add: w1 p1 nth_append)
qed

theorem userProfile_twice_witness:
  \<open>done_calls
     (userProfile False
        (mock (Success (str ''{"account":{"image":"i","firstname":"F","surname":"S","available_earnings":"1","total_deposits":"2","balance":"3","country":"C"}}''))
        (Success (str ''{"username":"u"}''))
        (Success (str ''{"email":"e@x.com"}'')) :: unit transport)
        (str ''token'') done_returns
        (userProfile False
     (mock (Success (str ''{"account":{"image":"i","firstname":"F","surname":"S","available_earnings":"1","total_deposits":"2","balance":"3","country":"C"}}''))
        (Success (str ''{"username":"u"}''))
        (Success (str ''{"email":"e@x.com"}'')) :: unit transport)
     (str ''token'') done_returns (initial_world example_strategy))) = [Inr 0, Inr 1] \<and>
   heap
     (userProfile False
        (mock (Success (str ''{"account":{"image":"i","firstname":"F","surname":"S","available_earnings":"1","total_deposits":"2","balance":"3","country":"C"}}''))
        (Success (str ''{"username":"u"}''))
        (Success (str ''{"email":"e@x.com"}'')) :: unit transport)
        (str ''token'') done_returns
        (userProfile False
     (mock (Success (str ''{"account":{"image":"i","firstname":"F","surname":"S","available_earnings":"1","total_deposits":"2","balance":"3","country":"C"}}''))
        (Success (str ''{"username":"u"}''))
        (Success (str ''{"email":"e@x.com"}'')) :: unit transport)
     (str ''token'') done_returns (initial_world example_strategy))) ! 1 =
   heap
     (userProfile False
     (mock (Success (str ''{"account":{"image":"i","firstname":"F","surname":"S","available_earnings":"1","total_deposits":"2","balance":"3","country":"C"}}''))
        (Success (str ''{"username":"u"}''))
        (Success (str ''{"email":"e@x.com"}'')) :: unit transport)
     (str ''token'') done_returns (initial_world example_strategy)) ! 0\<close>
  using userProfile_twice [where sync = False and net = \<open>(mock (Success (str ''{"account":{"image":"i","firstname":"F","surname":"S","available_earnings":"1","total_deposits":"2","balance":"3","country":"C"}}''))
        (Success (str ''{"username":"u"}''))
        (Success (str ''{"email":"e@x.com"}'')) :: unit transport)\<close> and accessToken = \<open>str ''token''\<close>
      and w = \<open>initial_world example_strategy\<close> and ?p1.0 = 0]
  by (auto simp add: example_run) (simp_all add: initial_world_def)

text \<open>
  C9, as the code has it. When the account request succeeds and its body is JSON in
  which \<^verbatim>\<open>json.account\<close> is \<^verbatim>\<open>undefined\<close> or \<^verbatim>\<open>null\<close> (no such property, or
  the body is not an object), or the body is \<^verbatim>\<open>null\<close>, reading
  \<^verbatim>\<open>json.account.image\<close> throws a TypeError, \<^verbatim>\<open>done\<close> receives that exception, and
  the username and email requests are not made.
\<close>

theorem account_missing_throws:
  fixes net :: "'e transport"
  assumes "net (length (requests w)) (strategy_userProfileURL (this w)) accessToken = Success body"
    and "JSON_parse body = Inr json"
    and "json = JNull \<or> lookup json (str ''account'') = JUndefined \<or>
      lookup json (str ''account'') = JNull"
  shows "requests (userProfile sync net accessToken done_returns w) =
      requests w @ [(strategy_userProfileURL (this w), accessToken)] \<and>
    done_calls (userProfile sync net accessToken done_returns w) = done_calls w @ [Inl (Thrown TypeError)]"
proof -
  from assms(3) have "nullish json \<or> nullish (lookup json (str ''account''))"
    by (auto simp: nullish_def)
  note thrown = account_callback_nullish [OF assms(2) this]
  show ?thesis
    by (simp add: userProfile_def oauth2_get_def assms(1) thrown call_done_returns try_catch_def)
qed

theorem account_missing_throws_witness:
  \<open>requests (userProfile False
     (mock (Success (str ''{}''))
        (Failure ())
        (Failure ()) :: unit transport)
     (str ''token'') done_returns (initial_world example_strategy)) =
     [(str ''https://api.envato.com/v1/market/private/user/account.json'', str ''token'')] \<and>
   done_calls (userProfile False
     (mock (Success (str ''{}''))
        (Failure ())
        (Failure ()) :: unit transport)
     (str ''token'') done_returns (initial_world example_strategy)) =
     [Inl (Thrown TypeError)]\<close>
  using account_missing_throws [where sync = False and net = \<open>(mock (Success (str ''{}''))
        (Failure ())
        (Failure ()) :: unit transport)\<close>
      and accessToken = \<open>str ''token''\<close> and w = \<open>initial_world example_strategy\<close>
      and body = \<open>str ''{}''\<close> and json = \<open>JObj []\<close>]
  by (simp add: initial_world_def example_strategy_def parse_empty_object_example)

text \<open>
  C9 as stated fails for an \<^verbatim>\<open>account\<close> that is a number, a string, a boolean or an
  array: reading a property of such a value gives \<^verbatim>\<open>undefined\<close> and throws nothing.
  With the body \<^verbatim>\<open>{"account":1}\<close> all three requests are made and \<^verbatim>\<open>done\<close>
  receives a profile.
\<close>

theorem account_missing_throws_counterexample:
  \<open>JSON_parse (str ''{"account":1}'') = Inr (JObj [(str ''account'', JNum (str ''1''))]) \<and>
   requests (userProfile False
     (mock (Success (str ''{"account":1}''))
        (Success (str ''{"username":"u"}''))
        (Success (str ''{"email":"e@x.com"}'')) :: unit transport)
     (str ''token'') done_returns (initial_world example_strategy)) =
     [(str ''https://api.envato.com/v1/market/private/user/account.json'', str ''token''),
      (str ''https://api.envato.com/v1/market/private/user/username.json'', str ''token''),
      (str ''https://api.envato.com/v1/market/private/user/email.json'', str ''token'')] \<and>
   done_calls (userProfile False
     (mock (Success (str ''{"account":1}''))
        (Success (str ''{"username":"u"}''))
        (Success (str ''{"email":"e@x.com"}'')) :: unit transport)
     (str ''token'') done_returns (initial_world example_strategy)) =
     [Inr 0]\<close>
  by (simp add: parse_account_number_example initial_world_def example_strategy_def nullish_def
      str_eq_iff
      userProfile_ok [where sync = False and net = \<open>(mock (Success (str ''{"account":1}''))
        (Success (str ''{"username":"u"}''))
        (Success (str ''{"email":"e@x.com"}'')) :: unit transport)\<close>,
        OF _ parse_account_number_example _ _ _ parse_username_example _ _ parse_email_example])

text \<open>
  C10, as the code has it. When the account step succeeds and the username and email
  responses are JSON values other than \<^verbatim>\<open>null\<close>, all three requests are made and
  \<^verbatim>\<open>done\<close> receives a profile whose \<^verbatim>\<open>username\<close> and \<^verbatim>\<open>email\<close> are the
  properties of those values, \<^verbatim>\<open>undefined\<close> where the property is missing.
\<close>

theorem missing_field_is_undefined:
  fixes net :: "'e transport"
  assumes "net (length (requests w)) (strategy_userProfileURL (this w)) accessToken = Success b1"
    and "JSON_parse b1 = Inr j1" and "j1 \<noteq> JNull"
    and "lookup j1 (str ''account'') \<noteq> JUndefined" and "lookup j1 (str ''account'') \<noteq> JNull"
    and "net (Suc (length (requests w))) (strategy_userProfileUsername (this w)) accessToken = Success b2"
    and "JSON_parse b2 = Inr j2" and "j2 \<noteq> JNull"
    and "net (Suc (Suc (length (requests w)))) (strategy_userProfileEmail (this w)) accessToken = Success b3"
    and "JSON_parse b3 = Inr j3" and "j3 \<noteq> JNull"
  shows "requests (userProfile sync net accessToken done_returns w) =
      requests w @ [(strategy_userProfileURL (this w), accessToken),
                    (strategy_userProfileUsername (this w), accessToken),
                    (strategy_userProfileEmail (this w), accessToken)] \<and>
    done_calls (userProfile sync net accessToken done_returns w) = done_calls w @ [Inr (length (heap w))] \<and>
    map_of (heap (userProfile sync net accessToken done_returns w) ! length (heap w)) (str ''username'') =
      Some (lookup j2 (str ''username'')) \<and>
    map_of (heap (userProfile sync net accessToken done_returns w) ! length (heap w)) (str ''email'') =
      Some (lookup j3 (str ''email''))"
proof -
  have n1: "\<not> nullish j1" and n2: "\<not> nullish j2" and n3: "\<not> nullish j3"
    using assms by (simp_all add: JSON_parse_nullish)
  have a: "\<not> nullish (lookup j1 (str ''account''))"
    using assms(4,5) by (simp add: nullish_def)
  show ?thesis
    by (simp add: str_eq_iff
        userProfile_ok [where sync = sync and net = net and w = w and tok = accessToken,
          OF assms(1,2) n1 a assms(6,7) n2 assms(9,10) n3])
qed

theorem missing_field_is_undefined_witness:
  \<open>done_calls (userProfile False
     (mock (Success (str ''{"account":{"image":"i","firstname":"F","surname":"S","available_earnings":"1","total_deposits":"2","balance":"3","country":"C"}}''))
        (Success (str ''{}''))
        (Success (str ''{}'')) :: unit transport)
     (str ''token'') done_returns (initial_world example_strategy)) =
     [Inr 0] \<and>
   map_of (heap (userProfile False
     (mock (Success (str ''{"account":{"image":"i","firstname":"F","surname":"S","available_earnings":"1","total_deposits":"2","balance":"3","country":"C"}}''))
        (Success (str ''{}''))
        (Success (str ''{}'')) :: unit transport)
     (str ''token'') done_returns (initial_world example_strategy)) ! 0)
     (str ''username'') = Some JUndefined \<and>
   map_of (heap (userProfile False
     (mock (Success (str ''{"account":{"image":"i","firstname":"F","surname":"S","available_earnings":"1","total_deposits":"2","balance":"3","country":"C"}}''))
        (Success (str ''{}''))
        (Success (str ''{}'')) :: unit transport)
     (str ''token'') done_returns (initial_world example_strategy)) ! 0)
     (str ''email'') = Some JUndefined\<close>
  using missing_field_is_undefined [where sync = False and net = \<open>(mock (Success (str ''{"account":{"image":"i","firstname":"F","surname":"S","available_earnings":"1","total_deposits":"2","balance":"3","country":"C"}}''))
        (Success (str ''{}''))
        (Success (str ''{}'')) :: unit transport)\<close>
      and accessToken = \<open>str ''token''\<close> and w = \<open>initial_world example_strategy\<close>
      and ?b1.0 = \<open>str ''{"account":{"image":"i","firstname":"F","surname":"S","available_earnings":"1","total_deposits":"2","balance":"3","country":"C"}}''\<close>
      and ?j1.0 = \<open>JObj [(str ''account'',
          JObj [(str ''image'', JStr (str ''i'')), (str ''firstname'', JStr (str ''F'')),
                (str ''surname'', JStr (str ''S'')), (str ''available_earnings'', JStr (str ''1'')),
                (str ''total_deposits'', JStr (str ''2'')), (str ''balance'', JStr (str ''3'')),
                (str ''country'', JStr (str ''C''))])]\<close>
      and ?b2.0 = \<open>str ''{}''\<close> and ?j2.0 = \<open>JObj []\<close>
      and ?b3.0 = \<open>str ''{}''\<close> and ?j3.0 = \<open>JObj []\<close>]
  by (simp add: initial_world_def example_strategy_def parse_account_example
      parse_empty_object_example str_eq_iff)

text \<open>
  C10 as stated fails for the body \<^verbatim>\<open>null\<close>, which is JSON and has no
  \<^verbatim>\<open>username\<close>: reading \<^verbatim>\<open>json.username\<close> throws a TypeError, \<^verbatim>\<open>done\<close> receives
  it, and the email request is not made.
\<close>

theorem missing_field_is_undefined_counterexample:
  \<open>JSON_parse (str ''null'') = Inr JNull \<and>
   requests (userProfile False
     (mock (Success (str ''{"account":{"image":"i","firstname":"F","surname":"S","available_earnings":"1","total_deposits":"2","balance":"3","country":"C"}}''))
        (Success (str ''null''))
        (Success (str ''{"email":"e@x.com"}'')) :: unit transport)
     (str ''token'') done_returns (initial_world example_strategy)) =
     [(str ''https://api.envato.com/v1/market/private/user/account.json'', str ''token''),
      (str ''https://api.envato.com/v1/market/private/user/username.json'', str ''token'')] \<and>
   done_calls (userProfile False
     (mock (Success (str ''{"account":{"image":"i","firstname":"F","surname":"S","available_earnings":"1","total_deposits":"2","balance":"3","country":"C"}}''))
        (Success (str ''null''))
        (Success (str ''{"email":"e@x.com"}'')) :: unit transport)
     (str ''token'') done_returns (initial_world example_strategy)) =
     [Inl (Thrown TypeError)]\<close>
  by (simp add: parse_null_example initial_world_def example_strategy_def nullish_def str_eq_iff
      userProfile_def oauth2_get_def call_done_returns try_catch_def
      account_callback_ok [OF parse_account_example]
      username_callback_nullish [OF parse_null_example])

end
